theory Spec2Isabelle
  imports Complex_Main "HOL-Library.Word"
begin

section \<open>Common types\<close>

text \<open>
  The C++ type \<open>unsigned\<close> is a 32-bit word (arithmetic wraps, \<open>unat\<close> reads it);
  \<open>int\<close> is a 32-bit word read in two's complement by \<open>sint\<close>.
\<close>

type_synonym c_unsigned = "32 word"
type_synonym c_int = "32 word"

subsection \<open>Distributions\<close>

text \<open>
  Modelled from the spec: \<open>LinearAlgebraDistribution\<close>, whose header is not among the
  sources. The spec's Distribution describes how the global rows are partitioned across
  the processes of a communicator: the number of global rows, the first-row offset and
  local row count, whether the object is actually distributed, and the communicator.
  The record holds the view of the calling process; \<open>d_built\<close> is what \<open>built()\<close>
  returns and \<open>d_nproc\<close> is the communicator's \<open>nproc()\<close>. Two distributions are equal
  (\<open>operator==\<close>) when all of this agrees.
\<close>

record LinearAlgebraDistribution =
  d_built :: bool
  d_nrow :: c_unsigned
  d_first_row :: c_unsigned
  d_nrow_local :: c_unsigned
  d_distributed :: bool
  d_nproc :: nat

subsection \<open>Errors and warnings\<close>

text \<open>
  An exception thrown with \<open>throw OomphLibError(...)\<close> is the left summand of a
  result; its message is kept as the sequence of items streamed into it.
  A read or write through a pointer outside the allocated object has no defined
  behaviour in C++; the model makes it the value \<open>Undefined_behaviour\<close> so that it is
  never confused with a thrown error or with a returned value.
\<close>

datatype msg_item = Txt string | Signed int | Unsigned nat | Printed LinearAlgebraDistribution

datatype error = OomphLibError "msg_item list" | Undefined_behaviour

datatype warning = OomphLibWarning string

section \<open>SimpleCubicMesh (src/meshes/simple_cubic_mesh.template.h)\<close>

text \<open>
  The protected data of the mesh. Both constructors store their first three
  arguments in \<open>Nx\<close>, \<open>Ny\<close>, \<open>Nz\<close> through the initialiser list and then call
  \<open>build_mesh\<close>, whose body is not part of the header; it creates nodes and elements
  and is not modelled. The coordinates are doubles that are only stored.
\<close>

record SimpleCubicMesh =
  Nx :: c_unsigned
  Ny :: c_unsigned
  Nz :: c_unsigned
  Xmin :: real
  Xmax :: real
  Ymin :: real
  Ymax :: real
  Zmin :: real
  Zmax :: real

definition SimpleCubicMesh_lengths ::
  "c_unsigned \<Rightarrow> c_unsigned \<Rightarrow> c_unsigned \<Rightarrow> real \<Rightarrow> real \<Rightarrow> real \<Rightarrow> SimpleCubicMesh" where
  "SimpleCubicMesh_lengths nx ny nz lx ly lz =
     \<lparr>Nx = nx, Ny = ny, Nz = nz,
      Xmin = 0, Xmax = lx, Ymin = 0, Ymax = ly, Zmin = 0, Zmax = lz\<rparr>"

definition SimpleCubicMesh_bounds ::
  "c_unsigned \<Rightarrow> c_unsigned \<Rightarrow> c_unsigned \<Rightarrow>
   real \<Rightarrow> real \<Rightarrow> real \<Rightarrow> real \<Rightarrow> real \<Rightarrow> real \<Rightarrow> SimpleCubicMesh" where
  "SimpleCubicMesh_bounds nx ny nz xmin xmax ymin ymax zmin zmax =
     \<lparr>Nx = nx, Ny = ny, Nz = nz,
      Xmin = xmin, Xmax = xmax, Ymin = ymin, Ymax = ymax, Zmin = zmin, Zmax = zmax\<rparr>"

definition nx :: "SimpleCubicMesh \<Rightarrow> c_unsigned" where
  "nx m = Nx m"

definition ny :: "SimpleCubicMesh \<Rightarrow> c_unsigned" where
  "ny m = Ny m"

text \<open>The accessor \<open>nz()\<close> as it is written: \<open>return Nx;\<close>.\<close>

definition nz :: "SimpleCubicMesh \<Rightarrow> c_unsigned" where
  "nz m = Nx m"

section \<open>Space-time block preconditioners
  (src/space\_time/space\_time\_block\_preconditioner/general\_purpose\_space\_time\_block\_preconditioner.h)\<close>

subsection \<open>Memory statistics\<close>

text \<open>
  The three private members both classes declare. \<open>OomphLibWarning\<close> is constructed
  and discarded: it reports its message and control continues, so the accessor returns
  a value together with the warnings it emitted; a thrown exception would be the left
  summand.
\<close>

record ExactDGPBlockPreconditioner =
  E_Preconditioner_has_been_setup :: bool
  E_Compute_memory_statistics :: bool
  E_Memory_usage_in_bytes :: real

definition ExactDGPBlockPreconditioner_ctor :: "ExactDGPBlockPreconditioner" where
  "ExactDGPBlockPreconditioner_ctor =
     \<lparr>E_Preconditioner_has_been_setup = False,
      E_Compute_memory_statistics = False,
      E_Memory_usage_in_bytes = 0\<rparr>"

definition stats_not_calculated :: warning where
  "stats_not_calculated =
     OomphLibWarning
       ''The memory statistics have not been calculated so I'm returning\<newline>the value zero.\<newline>''"

definition not_set_up_yet :: warning where
  "not_set_up_yet =
     OomphLibWarning
       ''The preconditioner hasn't even been set up yet so I'm returning\<newline>the value zero.\<newline>''"

definition E_enable_doc_memory_usage ::
  "ExactDGPBlockPreconditioner \<Rightarrow> ExactDGPBlockPreconditioner" where
  "E_enable_doc_memory_usage p = p\<lparr>E_Compute_memory_statistics := True\<rparr>"

definition E_disable_doc_memory_usage ::
  "ExactDGPBlockPreconditioner \<Rightarrow> ExactDGPBlockPreconditioner" where
  "E_disable_doc_memory_usage p = p\<lparr>E_Compute_memory_statistics := False\<rparr>"

definition E_get_memory_usage_in_bytes ::
  "ExactDGPBlockPreconditioner \<Rightarrow> error + (real \<times> warning list)" where
  "E_get_memory_usage_in_bytes p =
     (if E_Preconditioner_has_been_setup p then
        (if E_Compute_memory_statistics p then Inr (E_Memory_usage_in_bytes p, [])
         else Inr (0, [stats_not_calculated]))
      else Inr (0, [not_set_up_yet]))"

subsection \<open>DenseMatrix of pointers and the heap of matrix-vector products\<close>

text \<open>
  Modelled from the spec: \<open>DenseMatrix\<close>, whose header is not among the sources. The
  spec describes \<open>Off_diagonal_matrix_vector_products\<close> as a two-dimensional table of
  optionally present owned resources; the table has \<open>nrow\<close> rows and \<open>ncol\<close> columns
  and entry \<open>(i, j)\<close> is stored row by row. A pointer is \<open>None\<close> (null) or
  \<open>Some a\<close> for an address \<open>a\<close>.
\<close>

type_synonym addr = nat
type_synonym pointer = "addr option"

record 'a DenseMatrix =
  dm_nrow :: nat
  dm_ncol :: nat
  Matrixdata :: "'a list"

definition entry :: "'a DenseMatrix \<Rightarrow> nat \<Rightarrow> nat \<Rightarrow> 'a" where
  "entry m i j = Matrixdata m ! (dm_ncol m * i + j)"

definition set_entry :: "'a DenseMatrix \<Rightarrow> nat \<Rightarrow> nat \<Rightarrow> 'a \<Rightarrow> 'a DenseMatrix" where
  "set_entry m i j x = m\<lparr>Matrixdata := (Matrixdata m)[dm_ncol m * i + j := x]\<rparr>"

text \<open>
  The heap is the set of addresses of live \<open>MatrixVectorProduct\<close> objects. \<open>delete\<close>
  of a null pointer does nothing, \<open>delete\<close> of a live object frees it, and \<open>delete\<close>
  of anything else (a second free) is undefined behaviour.
\<close>

type_synonym heap = "addr set"

definition delete_ptr :: "heap \<Rightarrow> pointer \<Rightarrow> error + heap" where
  "delete_ptr h p =
     (case p of
        None \<Rightarrow> Inr h
      | Some a \<Rightarrow> if a \<in> h then Inr (h - {a}) else Inl Undefined_behaviour)"

subsection \<open>BandedBlockTriangularPreconditioner\<close>

text \<open>
  The members of the class; \<open>Base\<close> stands for the state of the base class
  \<open>GeneralPurposeBlockPreconditioner\<close>, whose header is not among the sources.
\<close>

record 'b BandedBlockTriangularPreconditioner =
  Off_diagonal_matrix_vector_products :: "pointer DenseMatrix"
  Block_bandwidth :: int
  Upper_triangular :: bool
  Preconditioner_has_been_setup :: bool
  Compute_memory_statistics :: bool
  Memory_usage_in_bytes :: real
  Base :: 'b

definition BandedBlockTriangularPreconditioner_ctor ::
  "'b \<Rightarrow> 'b BandedBlockTriangularPreconditioner" where
  "BandedBlockTriangularPreconditioner_ctor b =
     \<lparr>Off_diagonal_matrix_vector_products = \<lparr>dm_nrow = 0, dm_ncol = 0, Matrixdata = []\<rparr>,
      Block_bandwidth = - 1,
      Upper_triangular = True,
      Preconditioner_has_been_setup = False,
      Compute_memory_statistics = False,
      Memory_usage_in_bytes = 0,
      Base = b\<rparr>"

definition set_block_bandwidth ::
  "int \<Rightarrow> 'b BandedBlockTriangularPreconditioner \<Rightarrow> 'b BandedBlockTriangularPreconditioner" where
  "set_block_bandwidth bw p = p\<lparr>Block_bandwidth := bw\<rparr>"

definition upper_triangular ::
  "'b BandedBlockTriangularPreconditioner \<Rightarrow> 'b BandedBlockTriangularPreconditioner" where
  "upper_triangular p = p\<lparr>Upper_triangular := True\<rparr>"

definition lower_triangular ::
  "'b BandedBlockTriangularPreconditioner \<Rightarrow> 'b BandedBlockTriangularPreconditioner" where
  "lower_triangular p = p\<lparr>Upper_triangular := False\<rparr>"

definition enable_doc_memory_usage ::
  "'b BandedBlockTriangularPreconditioner \<Rightarrow> 'b BandedBlockTriangularPreconditioner" where
  "enable_doc_memory_usage p = p\<lparr>Compute_memory_statistics := True\<rparr>"

definition disable_doc_memory_usage ::
  "'b BandedBlockTriangularPreconditioner \<Rightarrow> 'b BandedBlockTriangularPreconditioner" where
  "disable_doc_memory_usage p = p\<lparr>Compute_memory_statistics := False\<rparr>"

definition get_memory_usage_in_bytes ::
  "'b BandedBlockTriangularPreconditioner \<Rightarrow> error + (real \<times> warning list)" where
  "get_memory_usage_in_bytes p =
     (if Preconditioner_has_been_setup p then
        (if Compute_memory_statistics p then Inr (Memory_usage_in_bytes p, [])
         else Inr (0, [stats_not_calculated]))
      else Inr (0, [not_set_up_yet]))"

text \<open>
  \<open>clean_up_memory\<close>: the inner loop over the columns \<open>j\<close> of row \<open>i\<close> deletes the
  operator at \<open>(i, j)\<close> and stores a null pointer there; the outer loop runs over the
  rows; then the base class cleans up. The base-class function is a parameter
  \<open>base_clean_up\<close> acting on the base-class state.
\<close>

primrec clean_up_columns ::
  "nat \<Rightarrow> nat list \<Rightarrow> heap \<times> pointer DenseMatrix \<Rightarrow> error + (heap \<times> pointer DenseMatrix)" where
  "clean_up_columns i [] st = Inr st"
| "clean_up_columns i (j # js) st =
     (case delete_ptr (fst st) (entry (snd st) i j) of
        Inl e \<Rightarrow> Inl e
      | Inr h \<Rightarrow> clean_up_columns i js (h, set_entry (snd st) i j None))"

primrec clean_up_rows ::
  "nat list \<Rightarrow> nat \<Rightarrow> heap \<times> pointer DenseMatrix \<Rightarrow> error + (heap \<times> pointer DenseMatrix)" where
  "clean_up_rows [] nj st = Inr st"
| "clean_up_rows (i # is) nj st =
     (case clean_up_columns i [0..<nj] st of
        Inl e \<Rightarrow> Inl e
      | Inr st' \<Rightarrow> clean_up_rows is nj st')"

definition clean_up_memory ::
  "('b \<Rightarrow> 'b) \<Rightarrow> heap \<times> 'b BandedBlockTriangularPreconditioner \<Rightarrow>
   error + (heap \<times> 'b BandedBlockTriangularPreconditioner)" where
  "clean_up_memory base_clean_up st =
     (let m = Off_diagonal_matrix_vector_products (snd st) in
      case clean_up_rows [0..<dm_nrow m] (dm_ncol m) (fst st, m) of
        Inl e \<Rightarrow> Inl e
      | Inr (h, m') \<Rightarrow>
          Inr (h, (snd st)\<lparr>Off_diagonal_matrix_vector_products := m',
                           Base := base_clean_up (Base (snd st))\<rparr>))"

text \<open>The destructor forwards to \<open>clean_up_memory\<close>; afterwards only the heap is left.\<close>

definition BandedBlockTriangularPreconditioner_dtor ::
  "('b \<Rightarrow> 'b) \<Rightarrow> heap \<times> 'b BandedBlockTriangularPreconditioner \<Rightarrow> error + heap" where
  "BandedBlockTriangularPreconditioner_dtor base_clean_up st =
     (case clean_up_memory base_clean_up st of Inl e \<Rightarrow> Inl e | Inr st' \<Rightarrow> Inr (fst st'))"

subsection \<open>Populated off-diagonal blocks\<close>

text \<open>
  Modelled from the spec: \<open>BandedBlockTriangularPreconditioner::setup\<close>, whose body is
  not among the sources (the header only declares it). The spec's policy: if
  \<open>Upper_triangular\<close>, only blocks with column index above the row index are
  candidates, else only those with column below row; among candidates, if
  \<open>Block_bandwidth \<ge> 0\<close> only those with \<open>|col - row| \<le> Block_bandwidth\<close> are
  populated, else every candidate is.
\<close>

definition candidate :: "bool \<Rightarrow> nat \<Rightarrow> nat \<Rightarrow> bool" where
  "candidate upper i j = (if upper then i < j else j < i)"

definition populated :: "bool \<Rightarrow> int \<Rightarrow> nat \<Rightarrow> nat \<Rightarrow> bool" where
  "populated upper bw i j =
     (candidate upper i j \<and> (if 0 \<le> bw then \<bar>int j - int i\<bar> \<le> bw else True))"

definition populated_positions :: "nat \<Rightarrow> bool \<Rightarrow> int \<Rightarrow> (nat \<times> nat) list" where
  "populated_positions n_block upper bw =
     concat (map (\<lambda>i. map (\<lambda>j. (i, j)) (filter (populated upper bw i) [0..<n_block]))
                 [0..<n_block])"

subsection \<open>Auxiliary notions for the cleanup proofs\<close>

text \<open>
  The double loop visits the slots of the table in row-major order; \<open>release_all\<close> is
  the same sequence of deletions on the flat array of slots, used to reason about the
  loops. \<open>stored m\<close> is the set of addresses held in the table, and a table is
  exclusively owned when its array has one slot per position, every stored address is
  live, and no address is stored in two slots.
\<close>

primrec release_all :: "nat list \<Rightarrow> heap \<times> pointer list \<Rightarrow> error + (heap \<times> pointer list)" where
  "release_all [] st = Inr st"
| "release_all (k # ks) st =
     (case delete_ptr (fst st) (snd st ! k) of
        Inl e \<Rightarrow> Inl e
      | Inr h \<Rightarrow> release_all ks (h, (snd st)[k := None]))"

definition with_data :: "pointer DenseMatrix \<Rightarrow> error + (heap \<times> pointer list) \<Rightarrow> error + (heap \<times> pointer DenseMatrix)" where
  "with_data m r = (case r of Inl e \<Rightarrow> Inl e | Inr st \<Rightarrow> Inr (fst st, m\<lparr>Matrixdata := snd st\<rparr>))"

definition stored_at :: "nat list \<Rightarrow> pointer list \<Rightarrow> addr set" where
  "stored_at ks d = {a. \<exists>k \<in> set ks. d ! k = Some a}"

definition owned :: "nat list \<Rightarrow> heap \<Rightarrow> pointer list \<Rightarrow> bool" where
  "owned ks h d \<longleftrightarrow>
     (\<forall>k \<in> set ks. k < length d \<and> (\<forall>a. d ! k = Some a \<longrightarrow> a \<in> h)) \<and>
     (\<forall>k \<in> set ks. \<forall>k' \<in> set ks. \<forall>a. d ! k = Some a \<and> d ! k' = Some a \<longrightarrow> k = k')"

definition stored :: "pointer DenseMatrix \<Rightarrow> addr set" where
  "stored m = {a. Some a \<in> set (Matrixdata m)}"

definition exclusively_owned :: "heap \<Rightarrow> pointer DenseMatrix \<Rightarrow> bool" where
  "exclusively_owned h m \<longleftrightarrow>
     length (Matrixdata m) = dm_nrow m * dm_ncol m \<and>
     stored m \<subseteq> h \<and>
     (\<forall>k < length (Matrixdata m). \<forall>k' < length (Matrixdata m). \<forall>a.
        Matrixdata m ! k = Some a \<and> Matrixdata m ! k' = Some a \<longrightarrow> k = k')"

text \<open>The positions populated for a preconditioner with its stored configuration.\<close>

definition populated_blocks :: "nat \<Rightarrow> 'b BandedBlockTriangularPreconditioner \<Rightarrow> (nat \<times> nat) list" where
  "populated_blocks n_block p = populated_positions n_block (Upper_triangular p) (Block_bandwidth p)"


section \<open>MUMPS solver and preconditioner (src/generic/mumps\_solver.h)\<close>

text \<open>
  A matrix handed to the solver through a \<open>DoubleMatrixBase*\<close>. \<open>m_distribution\<close> is
  the outcome of \<open>dynamic_cast<DistributableLinearAlgebraObject*>\<close> on it: \<open>None\<close>
  when the dynamic type does not derive from that class, otherwise the distribution the
  object carries. \<open>m_entries\<close> are its non-zero entries (row, column, value), counted
  from 0.
\<close>

record DoubleMatrixBase =
  m_distribution :: "LinearAlgebraDistribution option"
  m_entries :: "(nat \<times> nat \<times> real) list"

text \<open>
  The data members of \<open>MumpsSolver\<close>. \<open>Enable_resolve\<close> belongs to the base class
  \<open>LinearSolver\<close>. \<open>Mumps_struc_pt\<close> points to the external solver's structure; the
  model keeps in it the matrix whose factorisation the structure holds, \<open>None\<close> for a
  null pointer.
\<close>

record MumpsSolver =
  Enable_resolve :: bool
  Suppress_solve :: bool
  Doc_stats :: bool
  Suppress_warning_about_MPI_COMM_WORLD :: bool
  Suppress_mumps_info_during_solve :: bool
  Mumps_is_initialised :: bool
  Delete_matrix_data :: bool
  Irn_loc :: "int list"
  Jcn_loc :: "int list"
  A_loc :: "real list"
  Mumps_struc_pt :: "DoubleMatrixBase option"
  Jacobian_symmetry_flag :: c_unsigned
  Jacobian_ordering_flag :: c_unsigned

definition enable_delete_matrix_data :: "MumpsSolver \<Rightarrow> MumpsSolver" where
  "enable_delete_matrix_data s = s\<lparr>Delete_matrix_data := True\<rparr>"

definition disable_delete_matrix_data :: "MumpsSolver \<Rightarrow> MumpsSolver" where
  "disable_delete_matrix_data s = s\<lparr>Delete_matrix_data := False\<rparr>"

text \<open>
  Modelled from the spec: \<open>LinearSolver::disable_resolve\<close>, the base-class disable,
  whose header is not among the sources: it switches the resolve capability off.
\<close>

definition LinearSolver_disable_resolve :: "MumpsSolver \<Rightarrow> MumpsSolver" where
  "LinearSolver_disable_resolve s = s\<lparr>Enable_resolve := False\<rparr>"

text \<open>
  Modelled from the spec: \<open>MumpsSolver::clean_up_memory\<close>, which the header only
  declares. The spec: it releases the solver's internal factorization state and the
  triplet arrays.
\<close>

definition Mumps_clean_up_memory :: "MumpsSolver \<Rightarrow> MumpsSolver" where
  "Mumps_clean_up_memory s =
     s\<lparr>Mumps_is_initialised := False, Irn_loc := [], Jcn_loc := [], A_loc := [],
       Mumps_struc_pt := None\<rparr>"

text \<open>\<open>disable_resolve\<close> as the header defines it: the base-class call, then the cleanup.\<close>

definition disable_resolve :: "MumpsSolver \<Rightarrow> MumpsSolver" where
  "disable_resolve s = Mumps_clean_up_memory (LinearSolver_disable_resolve s)"

text \<open>
  Modelled from the spec: the destructor \<open>~MumpsSolver\<close>, which the header only
  declares (with the comment \<open>Destructor: Cleanup\<close>). The spec: \<open>clean_up_memory\<close> is
  invoked automatically by the destructor.
\<close>

definition MumpsSolver_dtor :: "MumpsSolver \<Rightarrow> MumpsSolver" where
  "MumpsSolver_dtor s = Mumps_clean_up_memory s"

text \<open>
  Modelled from the spec: \<open>MumpsSolver::resolve\<close>, which the header only declares.
  The spec: it reuses an existing factorization against a new right-hand side and fails
  if no prior successful factorization exists. The back-substitution of the external
  solver is the parameter \<open>backsub\<close>.
\<close>

definition no_factorisation :: error where
  "no_factorisation = OomphLibError [Txt ''No factorisation to reuse in resolve.'']"

definition resolve ::
  "(DoubleMatrixBase \<Rightarrow> 'v \<Rightarrow> 'v) \<Rightarrow> MumpsSolver \<Rightarrow> 'v \<Rightarrow> error + 'v" where
  "resolve backsub s rhs =
     (case Mumps_struc_pt s of
        None \<Rightarrow> Inl no_factorisation
      | Some m \<Rightarrow> Inr (backsub m rhs))"


text \<open>
  \<open>NewMumpsPreconditioner\<close>: its solver, the matrix pointer of the base class
  \<open>Preconditioner\<close> (\<open>None\<close> when null) and the distribution of the base class
  \<open>DistributableLinearAlgebraObject\<close>. \<open>setup\<close> first writes a line to
  \<open>oomph_info\<close>, which is not modelled. The solver's \<open>factorise\<close> and \<open>resolve\<close> are
  parameters of \<open>setup\<close> and \<open>preconditioner_solve\<close>.
\<close>

record NewMumpsPreconditioner =
  Solver :: MumpsSolver
  Matrix_pt :: "DoubleMatrixBase option"
  P_Distribution :: LinearAlgebraDistribution






definition NewMumpsPreconditioner_clean_up_memory ::
  "NewMumpsPreconditioner \<Rightarrow> NewMumpsPreconditioner" where
  "NewMumpsPreconditioner_clean_up_memory p = p\<lparr>Solver := Mumps_clean_up_memory (Solver p)\<rparr>"


definition empty_distribution :: LinearAlgebraDistribution where
  "empty_distribution =
     \<lparr>d_built = False, d_nrow = 0, d_first_row = 0, d_nrow_local = 0,
      d_distributed = True, d_nproc = 0\<rparr>"





section \<open>DoubleMultiVector (src/generic/double\_multi\_vector.h)\<close>

text \<open>
  The conditional compilation of the header is a record of flags passed to the
  functions that contain \<open>#ifdef\<close> blocks.
\<close>

record build_flags =
  PARANOID :: bool
  RANGE_CHECKING :: bool
  OOMPH_HAS_MPI :: bool

text \<open>
  The data members. \<open>Values\<close> is the array of \<open>Nvector\<close> pointers, one per vector,
  each pointing to the \<open>nrow_local\<close> local entries of that vector; \<open>None\<close> is the
  null pointer. The model keeps the entries a pointer leads to in place of the pointer,
  so a multi-vector is a value: storage shared between a shallow copy and its source is
  not represented. The functions below only reach a second multi-vector through a
  const reference or through a by-value copy. The entries have any type with the
  arithmetic the functions use; \<open>Distribution_pt\<close> is the distribution of the base
  class. The \<open>Internal_doublevector\<close> facade is not modelled.
\<close>

record 'a DoubleMultiVector =
  Values :: "'a list list option"
  Nvector :: c_unsigned
  Internal_values :: bool
  Built :: bool
  Distribution_pt :: LinearAlgebraDistribution

definition DoubleMultiVector_ctor :: "'a DoubleMultiVector" where
  "DoubleMultiVector_ctor =
     \<lparr>Values = None, Nvector = 0, Internal_values = True, Built = False,
      Distribution_pt = empty_distribution\<rparr>"

definition nvector :: "'a DoubleMultiVector \<Rightarrow> c_unsigned" where
  "nvector mv = Nvector mv"

definition built :: "'a DoubleMultiVector \<Rightarrow> bool" where
  "built mv = Built mv"

definition nrow_local :: "'a DoubleMultiVector \<Rightarrow> c_unsigned" where
  "nrow_local mv = d_nrow_local (Distribution_pt mv)"


definition distributed :: "'a DoubleMultiVector \<Rightarrow> bool" where
  "distributed mv = d_distributed (Distribution_pt mv)"

text \<open>
  Reading \<open>Values[v]\<close> and \<open>Values[v][i]\<close>, and writing \<open>Values[v][i]\<close>. An index
  outside the array read, or a null \<open>Values\<close>, is undefined behaviour.
\<close>

definition values_at :: "'a DoubleMultiVector \<Rightarrow> int \<Rightarrow> error + 'a list" where
  "values_at mv v =
     (case Values mv of
        None \<Rightarrow> Inl Undefined_behaviour
      | Some vs \<Rightarrow>
          if 0 \<le> v \<and> v < int (length vs) then Inr (vs ! nat v) else Inl Undefined_behaviour)"

definition element_at :: "'a list \<Rightarrow> int \<Rightarrow> error + 'a" where
  "element_at row i =
     (if 0 \<le> i \<and> i < int (length row) then Inr (row ! nat i) else Inl Undefined_behaviour)"

definition entry_at :: "'a DoubleMultiVector \<Rightarrow> int \<Rightarrow> int \<Rightarrow> error + 'a" where
  "entry_at mv v i =
     (case values_at mv v of Inl e \<Rightarrow> Inl e | Inr row \<Rightarrow> element_at row i)"


subsection \<open>Element access\<close>

text \<open>
  \<open>operator()(int v, int i)\<close>. With \<open>RANGE_CHECKING\<close> the first test is
  \<open>v > int(Nvector)\<close> and the second \<open>i >= int(nrow_local())\<close>; both messages are
  streamed into one error, thrown if either test fired. The messages print
  \<open>Nvector - 1\<close> and \<open>nrow_local() - 1\<close>, computed in \<open>unsigned\<close>.
\<close>

definition operator_call ::
  "build_flags \<Rightarrow> 'a DoubleMultiVector \<Rightarrow> c_int \<Rightarrow> c_int \<Rightarrow> error + 'a" where
  "operator_call fl mv v i =
     (let v_bad = (RANGE_CHECKING fl \<and> sint (Nvector mv) < sint v);
          i_bad = (RANGE_CHECKING fl \<and> sint (nrow_local mv) \<le> sint i);
          v_msg = (if v_bad
                   then [Txt ''Range Error: Vector '', Signed (sint v),
                         Txt ''is not in the range (0,'', Unsigned (unat (Nvector mv - 1)),
                         Txt '')'']
                   else []);
          i_msg = (if i_bad
                   then [Txt ''Range Error: '', Signed (sint i),
                         Txt '' is not in the range (0,'', Unsigned (unat (nrow_local mv - 1)),
                         Txt '')'']
                   else [])
      in if v_bad \<or> i_bad then Inl (OomphLibError (v_msg @ i_msg))
         else entry_at mv (sint v) (sint i))"

subsection \<open>Building, clearing and copying\<close>










subsection \<open>In-place addition and subtraction\<close>

definition this_must_be_setup :: error where
  "this_must_be_setup = OomphLibError [Txt ''This vector must be setup.'']"





subsection \<open>Communication, dot and norm\<close>

text \<open>
  A collective call is an event of the communication trace. \<open>MPI_Allreduce\<close> with
  \<open>MPI_SUM\<close> on \<open>count\<close> doubles returns, in every entry, the sum of the entries the
  processes of the communicator sent; \<open>peers\<close> are the send buffers of the other
  processes.
\<close>

datatype comm_event = MPI_Allreduce_SUM nat

definition MPI_Allreduce_sum :: "'a::plus list \<Rightarrow> 'a list list \<Rightarrow> 'a list" where
  "MPI_Allreduce_sum n peers = foldl (\<lambda>acc p. map2 (+) acc p) n peers"

definition input_must_be_setup :: error where
  "input_must_be_setup = OomphLibError [Txt ''The input vector be setup.'']"

definition distributions_must_agree ::
  "LinearAlgebraDistribution \<Rightarrow> LinearAlgebraDistribution \<Rightarrow> error" where
  "distributions_must_agree this_dist vec_dist =
     OomphLibError [Txt ''The distribution of this vector and the vector vec '',
                    Txt ''must be the same.'',
                    Txt ''\<newline>\<newline>  this: '', Printed this_dist,
                    Txt ''\<newline>  vec:  '', Printed vec_dist]"

text \<open>
  The inner loop of \<open>dot\<close>: \<open>n[v] += Values[v][i] * vec_values_pt[i]\<close> for the rows
  \<open>i\<close>, and the outer loop over the vectors, which first sets \<open>n[v] = 0.0\<close> and reads
  the pointer \<open>vec.values(v)\<close>.
\<close>

fun sum_products ::
  "'a::{plus,times} DoubleMultiVector \<Rightarrow> nat \<Rightarrow> 'a list \<Rightarrow> nat list \<Rightarrow> 'a \<Rightarrow> error + 'a" where
  "sum_products this v vec_values [] acc = Inr acc"
| "sum_products this v vec_values (i # is) acc =
     (case entry_at this (int v) (int i) of
        Inl e \<Rightarrow> Inl e
      | Inr x \<Rightarrow>
          (case element_at vec_values (int i) of
             Inl e \<Rightarrow> Inl e
           | Inr y \<Rightarrow> sum_products this v vec_values is (acc + x * y)))"

fun local_dot ::
  "'a::{zero,plus,times} DoubleMultiVector \<Rightarrow> 'a DoubleMultiVector \<Rightarrow> nat \<Rightarrow> nat list \<Rightarrow>
   error + 'a list" where
  "local_dot this vec n_row_local [] = Inr []"
| "local_dot this vec n_row_local (v # vs) =
     (case values_at vec (int v) of
        Inl e \<Rightarrow> Inl e
      | Inr vec_values \<Rightarrow>
          (case sum_products this v vec_values [0..<n_row_local] 0 of
             Inl e \<Rightarrow> Inl e
           | Inr s \<Rightarrow>
               (case local_dot this vec n_row_local vs of
                  Inl e \<Rightarrow> Inl e
                | Inr rest \<Rightarrow> Inr (s # rest))))"

text \<open>
  The gather step shared by \<open>dot\<close> and \<open>norm\<close>: under \<open>OOMPH_HAS_MPI\<close>, when the
  vector is distributed over more than one process, one \<open>MPI_Allreduce\<close> of all
  \<open>n_vector\<close> partial sums.
\<close>

definition gather ::
  "build_flags \<Rightarrow> 'a::plus DoubleMultiVector \<Rightarrow> 'a list \<Rightarrow> 'a list list \<Rightarrow>
   'a list \<times> comm_event list" where
  "gather fl this n peers =
     (if OOMPH_HAS_MPI fl \<and> distributed this \<and> 1 < d_nproc (Distribution_pt this)
      then (MPI_Allreduce_sum n peers, [MPI_Allreduce_SUM (length n)])
      else (n, []))"

text \<open>
  \<open>dot(vec, result)\<close>. \<open>n_vector\<close> is an \<open>int\<close> and sizes the array \<open>n\<close>; a negative
  size is undefined behaviour. The result is the vector stored in \<open>result\<close> and the
  communication performed.
\<close>

definition dot ::
  "build_flags \<Rightarrow> 'a::{zero,plus,times} DoubleMultiVector \<Rightarrow> 'a DoubleMultiVector \<Rightarrow>
   'a list list \<Rightarrow> error + ('a list \<times> comm_event list)" where
  "dot fl this vec peers =
     (if PARANOID fl \<and> \<not> built this then Inl this_must_be_setup
      else if PARANOID fl \<and> \<not> built vec then Inl input_must_be_setup
      else if PARANOID fl \<and> Distribution_pt this \<noteq> Distribution_pt vec
      then Inl (distributions_must_agree (Distribution_pt this) (Distribution_pt vec))
      else if sint (nvector this) < 0 then Inl Undefined_behaviour
      else (case local_dot this vec (unat (nrow_local this)) [0..<nat (sint (nvector this))] of
              Inl e \<Rightarrow> Inl e
            | Inr n \<Rightarrow> Inr (gather fl this n peers)))"

text \<open>
  \<open>norm(result)\<close>: the loops accumulate \<open>Values[v][i] * Values[v][i]\<close>, the gather
  step is the same, and the result holds the square root of each sum. The square root
  of the entry type is the parameter \<open>sqrt_fn\<close>.
\<close>

fun sum_squares ::
  "'a::{plus,times} DoubleMultiVector \<Rightarrow> nat \<Rightarrow> nat list \<Rightarrow> 'a \<Rightarrow> error + 'a" where
  "sum_squares this v [] acc = Inr acc"
| "sum_squares this v (i # is) acc =
     (case entry_at this (int v) (int i) of
        Inl e \<Rightarrow> Inl e
      | Inr x \<Rightarrow> sum_squares this v is (acc + x * x))"

fun local_norm ::
  "'a::{zero,plus,times} DoubleMultiVector \<Rightarrow> nat \<Rightarrow> nat list \<Rightarrow> error + 'a list" where
  "local_norm this n_row_local [] = Inr []"
| "local_norm this n_row_local (v # vs) =
     (case sum_squares this v [0..<n_row_local] 0 of
        Inl e \<Rightarrow> Inl e
      | Inr s \<Rightarrow>
          (case local_norm this n_row_local vs of
             Inl e \<Rightarrow> Inl e
           | Inr rest \<Rightarrow> Inr (s # rest)))"

definition norm_multi ::
  "('a \<Rightarrow> 'a) \<Rightarrow> build_flags \<Rightarrow> 'a::{zero,plus,times} DoubleMultiVector \<Rightarrow>
   'a list list \<Rightarrow> error + ('a list \<times> comm_event list)" where
  "norm_multi sqrt_fn fl this peers =
     (if PARANOID fl \<and> \<not> built this then Inl this_must_be_setup
      else if sint (nvector this) < 0 then Inl Undefined_behaviour
      else (case local_norm this (unat (nrow_local this)) [0..<nat (sint (nvector this))] of
              Inl e \<Rightarrow> Inl e
            | Inr n \<Rightarrow>
                Inr (map sqrt_fn (fst (gather fl this n peers)),
                     snd (gather fl this n peers))))"

text \<open>
  A built multi-vector: \<open>Built\<close> is set, the distribution is built, the pointer array
  has \<open>Nvector\<close> entries, each leading to \<open>nrow_local\<close> values, and \<open>Nvector\<close> fits
  the \<open>int\<close> the loops of \<open>dot\<close> and \<open>norm\<close> count with. This is the state
  \<open>build\<close> establishes.
\<close>

definition built_ok :: "'a DoubleMultiVector \<Rightarrow> bool" where
  "built_ok mv \<longleftrightarrow>
     Built mv \<and> d_built (Distribution_pt mv) \<and> 0 \<le> sint (Nvector mv) \<and>
     (case Values mv of
        None \<Rightarrow> False
      | Some vs \<Rightarrow>
          length vs = unat (Nvector mv) \<and>
          list_all (\<lambda>row. length row = unat (d_nrow_local (Distribution_pt mv))) vs)"

text \<open>The values of a built multi-vector, vector by vector.\<close>

definition local_values :: "'a DoubleMultiVector \<Rightarrow> 'a list list" where
  "local_values mv = (case Values mv of None \<Rightarrow> [] | Some vs \<Rightarrow> vs)"

text \<open>
  The local inner product of two arrays of local values as the loop of \<open>dot\<close>
  accumulates it, from zero, row by row, in the arithmetic of the entries, whatever that
  arithmetic is; and the local inner products of the vectors of \<open>this\<close> with the
  corresponding vectors of \<open>vec\<close>. Where the arithmetic is that of a commutative
  semiring, the accumulated value is the sum \<open>inner_product\<close> over the rows.
\<close>

definition accumulate_products :: "'a::{zero,plus,times} list \<Rightarrow> 'a list \<Rightarrow> 'a" where
  "accumulate_products xs ys = foldl (\<lambda>acc i. acc + xs ! i * ys ! i) 0 [0..<length xs]"

definition local_products ::
  "'a::{zero,plus,times} DoubleMultiVector \<Rightarrow> 'a DoubleMultiVector \<Rightarrow> 'a list" where
  "local_products this vec =
     map (\<lambda>v. accumulate_products (local_values this ! v) (local_values vec ! v))
       [0..<unat (Nvector this)]"

definition inner_product :: "'a::comm_semiring_0 list \<Rightarrow> 'a list \<Rightarrow> 'a" where
  "inner_product xs ys = (\<Sum>i<length xs. xs ! i * ys ! i)"




subsection \<open>Double-precision values that are integers\<close>

text \<open>
  The arithmetic of IEEE 754 binary64 on the finite values that are integers, for
  results below the overflow threshold: the exact result is rounded to 53 significant
  bits, to nearest, ties to the even significand. \<open>bit_length m\<close> is the number of
  binary digits of \<open>m\<close>.
\<close>

function bit_length :: "int \<Rightarrow> nat" where
  "bit_length m = (if m \<le> 0 then 0 else Suc (bit_length (m div 2)))"
  by pat_completeness auto
termination
  by (relation "measure nat") auto

definition round_to_double :: "int \<Rightarrow> int" where
  "round_to_double x =
     (let m = \<bar>x\<bar> in
      if m < 2 ^ 53 then x
      else
        let e = bit_length m - 53;
            q = m div 2 ^ e;
            r = m mod 2 ^ e;
            q' = (if 2 ^ (e - 1) < r \<or> (r = 2 ^ (e - 1) \<and> odd q) then q + 1 else q)
        in sgn x * (q' * 2 ^ e))"

datatype double = Double int

fun double_value :: "double \<Rightarrow> int" where
  "double_value (Double x) = x"

instantiation double :: "{zero,plus,minus,times}"
begin

definition zero_double :: double where
  "zero_double = Double 0"

definition plus_double :: "double \<Rightarrow> double \<Rightarrow> double" where
  "plus_double x y = Double (round_to_double (double_value x + double_value y))"

definition minus_double :: "double \<Rightarrow> double \<Rightarrow> double" where
  "minus_double x y = Double (round_to_double (double_value x - double_value y))"

definition times_double :: "double \<Rightarrow> double \<Rightarrow> double" where
  "times_double x y = Double (round_to_double (double_value x * double_value y))"

instance ..

end

text \<open>Build flags of an unchecked MPI build and of a fully checked MPI build.\<close>

definition unchecked_build :: build_flags where
  "unchecked_build = \<lparr>PARANOID = False, RANGE_CHECKING = False, OOMPH_HAS_MPI = True\<rparr>"

definition checked_build :: build_flags where
  "checked_build = \<lparr>PARANOID = True, RANGE_CHECKING = True, OOMPH_HAS_MPI = True\<rparr>"

text \<open>
  The gather step communicates when the build has MPI and the vector is distributed
  over more than one process.
\<close>

definition communicates :: "build_flags \<Rightarrow> 'a DoubleMultiVector \<Rightarrow> bool" where
  "communicates fl mv \<longleftrightarrow>
     OOMPH_HAS_MPI fl \<and> d_distributed (Distribution_pt mv) \<and> 1 < d_nproc (Distribution_pt mv)"

text \<open>
  Concrete multi-vectors: two vectors of three local rows, on one process and as the
  local part of a vector distributed over two processes, one vector of three local rows
  with the distribution of the first, and a single vector with a single row holding a
  given value, as \<open>build\<close> makes it.
\<close>

definition two_by_three :: "real DoubleMultiVector" where
  "two_by_three =
     \<lparr>Values = Some [[1, 2, 3], [4, 5, 6]], Nvector = 2, Internal_values = True, Built = True,
      Distribution_pt =
        \<lparr>d_built = True, d_nrow = 3, d_first_row = 0, d_nrow_local = 3,
         d_distributed = False, d_nproc = 1\<rparr>\<rparr>"

definition two_by_three_distributed :: "real DoubleMultiVector" where
  "two_by_three_distributed =
     \<lparr>Values = Some [[1, 2, 3], [4, 5, 6]], Nvector = 2, Internal_values = True, Built = True,
      Distribution_pt =
        \<lparr>d_built = True, d_nrow = 6, d_first_row = 0, d_nrow_local = 3,
         d_distributed = True, d_nproc = 2\<rparr>\<rparr>"

definition one_by_three :: "real DoubleMultiVector" where
  "one_by_three =
     \<lparr>Values = Some [[1, 1, 1]], Nvector = 1, Internal_values = True, Built = True,
      Distribution_pt =
        \<lparr>d_built = True, d_nrow = 3, d_first_row = 0, d_nrow_local = 3,
         d_distributed = False, d_nproc = 1\<rparr>\<rparr>"


section \<open>Theorems\<close>

text \<open>
  C9. For every SimpleCubicMesh constructed with element counts (nx, ny, nz), by either
  constructor, the accessor \<open>nz()\<close> returns the stored \<open>Nx\<close> field, the number of
  elements in the x direction, and not the \<open>Nz\<close> field: whenever nx differs from nz,
  \<open>nz()\<close> is not the mesh's z-direction element count.
\<close>

theorem nz_returns_Nx:
  "nz (SimpleCubicMesh_lengths a b c lx ly lz) = a \<and>
   nz (SimpleCubicMesh_bounds a b c x0 x1 y0 y1 z0 z1) = a \<and>
   nz m = Nx m \<and>
   (a \<noteq> c \<longrightarrow>
      nz (SimpleCubicMesh_lengths a b c lx ly lz) \<noteq> Nz (SimpleCubicMesh_lengths a b c lx ly lz) \<and>
      nz (SimpleCubicMesh_bounds a b c x0 x1 y0 y1 z0 z1)
        \<noteq> Nz (SimpleCubicMesh_bounds a b c x0 x1 y0 y1 z0 z1))"
  by (simp add: nz_def SimpleCubicMesh_lengths_def SimpleCubicMesh_bounds_def)

theorem nz_returns_Nx_witness:
  "(2 :: c_unsigned) \<noteq> 5 \<and> nz (SimpleCubicMesh_lengths 2 3 5 1 1 1) = 2 \<and>
   Nz (SimpleCubicMesh_lengths 2 3 5 1 1 1) = 5 \<and>
   nz (SimpleCubicMesh_lengths 2 3 5 1 1 1) \<noteq> Nz (SimpleCubicMesh_lengths 2 3 5 1 1 1)"
  using nz_returns_Nx [of 2 3 5 1 1 1 0 1 0 1 0 1 "SimpleCubicMesh_lengths 2 3 5 1 1 1"]
  by (simp add: SimpleCubicMesh_lengths_def)

subsection \<open>Banded block-triangular policy\<close>

lemma populated_positions_upper_1: "populated_positions 4 True 1 = [(0,1),(1,2),(2,3)]"
  by code_simp

lemma populated_positions_upper_all:
  "populated_positions 4 True (- 1) = [(0,1),(0,2),(0,3),(1,2),(1,3),(2,3)]"
  by code_simp

lemma populated_positions_upper_0: "populated_positions 4 True 0 = []"
  by code_simp

lemma populated_positions_iff:
  "(i, j) \<in> set (populated_positions n upper bw) \<longleftrightarrow>
     i < n \<and> j < n \<and> (if upper then i < j else j < i) \<and> (0 \<le> bw \<longrightarrow> \<bar>int j - int i\<bar> \<le> bw)"
  by (auto simp: populated_positions_def populated_def candidate_def)

text \<open>
  C1. The populated off-diagonal positions of an \<open>n \<times> n\<close> block grid are exactly the
  candidates of the orientation (column above row when \<open>Upper_triangular\<close>, column
  below row otherwise) that lie within the bandwidth when \<open>Block_bandwidth \<ge> 0\<close>, and
  all candidates when it is negative (the default \<open>-1\<close>). For a 4 by 4 grid with the
  constructor's upper-triangular orientation: bandwidth 1 populates (0,1),(1,2),(2,3);
  the default bandwidth \<open>-1\<close> populates all six upper positions; bandwidth 0 populates
  none.
\<close>

theorem populated_blocks_policy:
  "((i, j) \<in> set (populated_blocks n p) \<longleftrightarrow>
     i < n \<and> j < n \<and> (if Upper_triangular p then i < j else j < i) \<and>
     (0 \<le> Block_bandwidth p \<longrightarrow> \<bar>int j - int i\<bar> \<le> Block_bandwidth p)) \<and>
   populated_blocks 4 (set_block_bandwidth 1 (BandedBlockTriangularPreconditioner_ctor b)) =
     [(0,1),(1,2),(2,3)] \<and>
   populated_blocks 4 (BandedBlockTriangularPreconditioner_ctor b) =
     [(0,1),(0,2),(0,3),(1,2),(1,3),(2,3)] \<and>
   populated_blocks 4 (set_block_bandwidth 0 (BandedBlockTriangularPreconditioner_ctor b)) = []"
  by (simp add: populated_blocks_def populated_positions_iff set_block_bandwidth_def
      BandedBlockTriangularPreconditioner_ctor_def populated_positions_upper_1
      populated_positions_upper_all populated_positions_upper_0)

theorem populated_blocks_policy_witness:
  "(0::int) \<le> Block_bandwidth (set_block_bandwidth 1 (lower_triangular (BandedBlockTriangularPreconditioner_ctor ()))) \<and>
   (2, 1) \<in> set (populated_blocks 4
      (set_block_bandwidth 1 (lower_triangular (BandedBlockTriangularPreconditioner_ctor ())))) \<and>
   (3, 1) \<notin> set (populated_blocks 4
      (set_block_bandwidth 1 (lower_triangular (BandedBlockTriangularPreconditioner_ctor ()))))"
  using populated_blocks_policy [of 2 1 4
      "set_block_bandwidth 1 (lower_triangular (BandedBlockTriangularPreconditioner_ctor ()))" "()"]
    populated_blocks_policy [of 3 1 4
      "set_block_bandwidth 1 (lower_triangular (BandedBlockTriangularPreconditioner_ctor ()))" "()"]
  by (simp add: set_block_bandwidth_def lower_triangular_def
      BandedBlockTriangularPreconditioner_ctor_def)

subsection \<open>Memory statistics\<close>

text \<open>
  C4. For both ExactDGPBlockPreconditioner and BandedBlockTriangularPreconditioner,
  \<open>get_memory_usage_in_bytes\<close> never throws; it returns 0 with one warning when the
  preconditioner has not been set up, 0 with one warning when it has been set up but
  the statistics flag is off, and the recorded usage without any warning when both
  flags are set.
\<close>

theorem get_memory_usage_in_bytes_cases:
  "(\<not> E_Preconditioner_has_been_setup e \<longrightarrow>
      E_get_memory_usage_in_bytes e = Inr (0, [not_set_up_yet])) \<and>
   (E_Preconditioner_has_been_setup e \<and> \<not> E_Compute_memory_statistics e \<longrightarrow>
      E_get_memory_usage_in_bytes e = Inr (0, [stats_not_calculated])) \<and>
   (E_Preconditioner_has_been_setup e \<and> E_Compute_memory_statistics e \<longrightarrow>
      E_get_memory_usage_in_bytes e = Inr (E_Memory_usage_in_bytes e, [])) \<and>
   (\<not> Preconditioner_has_been_setup p \<longrightarrow>
      get_memory_usage_in_bytes p = Inr (0, [not_set_up_yet])) \<and>
   (Preconditioner_has_been_setup p \<and> \<not> Compute_memory_statistics p \<longrightarrow>
      get_memory_usage_in_bytes p = Inr (0, [stats_not_calculated])) \<and>
   (Preconditioner_has_been_setup p \<and> Compute_memory_statistics p \<longrightarrow>
      get_memory_usage_in_bytes p = Inr (Memory_usage_in_bytes p, []))"
  by (simp add: E_get_memory_usage_in_bytes_def get_memory_usage_in_bytes_def)

theorem get_memory_usage_in_bytes_cases_witness:
  "E_get_memory_usage_in_bytes ExactDGPBlockPreconditioner_ctor = Inr (0, [not_set_up_yet]) \<and>
   E_get_memory_usage_in_bytes
     (ExactDGPBlockPreconditioner_ctor\<lparr>E_Preconditioner_has_been_setup := True\<rparr>) =
     Inr (0, [stats_not_calculated]) \<and>
   E_get_memory_usage_in_bytes
     (E_enable_doc_memory_usage (ExactDGPBlockPreconditioner_ctor
        \<lparr>E_Preconditioner_has_been_setup := True, E_Memory_usage_in_bytes := 4096\<rparr>)) =
     Inr (4096, []) \<and>
   get_memory_usage_in_bytes (BandedBlockTriangularPreconditioner_ctor ()) =
     Inr (0, [not_set_up_yet]) \<and>
   get_memory_usage_in_bytes
     ((BandedBlockTriangularPreconditioner_ctor ())\<lparr>Preconditioner_has_been_setup := True\<rparr>) =
     Inr (0, [stats_not_calculated]) \<and>
   get_memory_usage_in_bytes
     (enable_doc_memory_usage ((BandedBlockTriangularPreconditioner_ctor ())
        \<lparr>Preconditioner_has_been_setup := True, Memory_usage_in_bytes := 4096\<rparr>)) =
     Inr (4096, [])"
  using
    get_memory_usage_in_bytes_cases [of ExactDGPBlockPreconditioner_ctor
      "BandedBlockTriangularPreconditioner_ctor ()"]
    get_memory_usage_in_bytes_cases
      [of "ExactDGPBlockPreconditioner_ctor\<lparr>E_Preconditioner_has_been_setup := True\<rparr>"
          "(BandedBlockTriangularPreconditioner_ctor ())\<lparr>Preconditioner_has_been_setup := True\<rparr>"]
    get_memory_usage_in_bytes_cases
      [of "E_enable_doc_memory_usage (ExactDGPBlockPreconditioner_ctor
             \<lparr>E_Preconditioner_has_been_setup := True, E_Memory_usage_in_bytes := 4096\<rparr>)"
          "enable_doc_memory_usage ((BandedBlockTriangularPreconditioner_ctor ())
             \<lparr>Preconditioner_has_been_setup := True, Memory_usage_in_bytes := 4096\<rparr>)"]
  by (simp add: ExactDGPBlockPreconditioner_ctor_def BandedBlockTriangularPreconditioner_ctor_def
      E_enable_doc_memory_usage_def enable_doc_memory_usage_def)

subsection \<open>Cleanup of the off-diagonal operators\<close>

lemma with_data_Inl: "with_data m (Inl e) = Inl e"
  by (simp add: with_data_def)

lemma with_data_update: "with_data (m\<lparr>Matrixdata := x\<rparr>) r = with_data m r"
  by (cases r) (simp_all add: with_data_def)

lemma clean_up_columns_flat:
  "clean_up_columns i js (h, m) =
     with_data m (release_all (map (\<lambda>j. dm_ncol m * i + j) js) (h, Matrixdata m))"
proof (induction js arbitrary: h m)
  case Nil
  show ?case by (simp add: with_data_def)
next
  case (Cons j js)
  let ?k = "dm_ncol m * i + j"
  show ?case
  proof (cases "delete_ptr h (Matrixdata m ! ?k)")
    case (Inl e)
    then show ?thesis by (simp add: entry_def with_data_Inl)
  next
    case (Inr h')
    let ?m = "m\<lparr>Matrixdata := (Matrixdata m)[?k := None]\<rparr>"
    have "clean_up_columns i (j # js) (h, m) = clean_up_columns i js (h', ?m)"
      using Inr by (simp add: entry_def set_entry_def)
    also have "\<dots> = with_data ?m
        (release_all (map (\<lambda>j. dm_ncol m * i + j) js) (h', (Matrixdata m)[?k := None]))"
      using Cons.IH [of h' ?m] by simp
    also have "\<dots> = with_data m
        (release_all (map (\<lambda>j. dm_ncol m * i + j) js) (h', (Matrixdata m)[?k := None]))"
      by (rule with_data_update)
    also have "\<dots> = with_data m
        (release_all (map (\<lambda>j. dm_ncol m * i + j) (j # js)) (h, Matrixdata m))"
      using Inr by simp
    finally show ?thesis .
  qed
qed

lemma release_all_append:
  "release_all (ks @ ls) st =
     (case release_all ks st of Inl e \<Rightarrow> Inl e | Inr st' \<Rightarrow> release_all ls st')"
proof (induction ks arbitrary: st)
  case Nil
  show ?case by simp
next
  case (Cons k ks)
  show ?case
    by (cases "delete_ptr (fst st) (snd st ! k)") (simp_all add: Cons.IH)
qed

lemma clean_up_rows_flat:
  "dm_ncol m = nc \<Longrightarrow>
   clean_up_rows rows nc (h, m) =
     with_data m (release_all (concat (map (\<lambda>i. map (\<lambda>j. nc * i + j) [0..<nc]) rows))
                    (h, Matrixdata m))"
proof (induction rows arbitrary: h m)
  case Nil
  show ?case by (simp add: with_data_def)
next
  case (Cons i rows)
  let ?row = "map (\<lambda>j. nc * i + j) [0..<nc]"
  let ?rest = "concat (map (\<lambda>i. map (\<lambda>j. nc * i + j) [0..<nc]) rows)"
  have cols: "clean_up_columns i [0..<nc] (h, m) = with_data m (release_all ?row (h, Matrixdata m))"
    using clean_up_columns_flat [of i "[0..<nc]" h m] Cons.prems by simp
  show ?case
  proof (cases "release_all ?row (h, Matrixdata m)")
    case (Inl e)
    then show ?thesis
      using cols by (simp add: release_all_append with_data_Inl)
  next
    case (Inr st')
    obtain h' d' where st': "st' = (h', d')" by (cases st')
    let ?m = "m\<lparr>Matrixdata := d'\<rparr>"
    have "clean_up_rows (i # rows) nc (h, m) = clean_up_rows rows nc (h', ?m)"
      using cols Inr st' by (simp add: with_data_def)
    also have "\<dots> = with_data ?m (release_all ?rest (h', d'))"
      using Cons.IH [of ?m h'] Cons.prems by simp
    also have "\<dots> = with_data m (release_all ?rest (h', d'))"
      by (rule with_data_update)
    also have "\<dots> = with_data m (release_all (?row @ ?rest) (h, Matrixdata m))"
      using Inr st' by (simp add: release_all_append)
    finally show ?thesis by simp
  qed
qed

lemma row_major_positions:
  "concat (map (\<lambda>i. map (\<lambda>j. nc * i + j) [0..<nc]) [0..<nr]) = [0..<nr * nc]"
proof (induction nr)
  case 0
  show ?case by simp
next
  case (Suc nr)
  have "map (\<lambda>j. nc * nr + j) [0..<nc] = map (\<lambda>j. j + nr * nc) [0..<nc]"
    by (simp add: add.commute mult.commute)
  also have "\<dots> = [nr * nc..<nc + nr * nc]"
    by (rule map_add_upt)
  finally have row: "map (\<lambda>j. nc * nr + j) [0..<nc] = [nr * nc..<nr * nc + nc]"
    by (simp add: add.commute)
  have "[0..<nr * nc + nc] = [0..<nr * nc] @ [nr * nc..<nr * nc + nc]"
    by (rule upt_add_eq_append) simp
  then show ?case
    using Suc row by (simp add: add.commute)
qed

lemma release_all_owned:
  "distinct ks \<Longrightarrow> owned ks h d \<Longrightarrow>
   \<exists>d'. release_all ks (h, d) = Inr (h - stored_at ks d, d') \<and> length d' = length d \<and>
        (\<forall>k < length d. d' ! k = (if k \<in> set ks then None else d ! k))"
proof (induction ks arbitrary: h d)
  case Nil
  show ?case by (simp add: stored_at_def)
next
  case (Cons k ks)
  let ?h = "case d ! k of None \<Rightarrow> h | Some a \<Rightarrow> h - {a}"
  let ?d = "d[k := None]"
  have k: "k \<notin> set ks" "distinct ks"
    using Cons.prems(1) by simp_all
  have live: "\<And>k' a. k' \<in> set (k # ks) \<Longrightarrow> d ! k' = Some a \<Longrightarrow> a \<in> h"
    and len: "\<And>k'. k' \<in> set (k # ks) \<Longrightarrow> k' < length d"
    and inj: "\<And>k1 k2 a. k1 \<in> set (k # ks) \<Longrightarrow> k2 \<in> set (k # ks) \<Longrightarrow>
                d ! k1 = Some a \<Longrightarrow> d ! k2 = Some a \<Longrightarrow> k1 = k2"
    using Cons.prems(2) unfolding owned_def by blast+
  have del: "delete_ptr h (d ! k) = Inr ?h"
  proof (cases "d ! k")
    case None
    then show ?thesis by (simp add: delete_ptr_def)
  next
    case (Some a)
    then have "a \<in> h" using live [of k a] by simp
    then show ?thesis using Some by (simp add: delete_ptr_def)
  qed
  have same: "?d ! k' = d ! k'" if "k' \<in> set ks" for k'
  proof -
    have "k \<noteq> k'" using that k(1) by blast
    then show ?thesis by simp
  qed
  have own: "owned ks ?h ?d"
    unfolding owned_def
  proof (intro conjI ballI allI impI)
    fix k' assume "k' \<in> set ks"
    then show "k' < length ?d" using len [of k'] by simp
  next
    fix k' a assume k': "k' \<in> set ks" and "?d ! k' = Some a"
    then have a: "d ! k' = Some a" using same by simp
    then have ah: "a \<in> h" using live [of k' a] k' by simp
    have "k' \<noteq> k" using k' k(1) by blast
    then have "d ! k \<noteq> Some a"
      using inj [of k' k a] a k' by auto
    then show "a \<in> ?h" using ah by (cases "d ! k") simp_all
  next
    fix k1 k2 a assume h: "k1 \<in> set ks" "k2 \<in> set ks" "?d ! k1 = Some a \<and> ?d ! k2 = Some a"
    then have "d ! k1 = Some a" "d ! k2 = Some a" using same by simp_all
    then show "k1 = k2" using inj [of k1 k2 a] h(1,2) by simp
  qed
  from Cons.IH [OF k(2) own] obtain d' where
    d1: "release_all ks (?h, ?d) = Inr (?h - stored_at ks ?d, d')" and
    d2: "length d' = length ?d" and
    d3: "\<And>k'. k' < length ?d \<Longrightarrow> d' ! k' = (if k' \<in> set ks then None else ?d ! k')"
    by blast
  have st: "stored_at ks ?d = stored_at ks d"
    unfolding stored_at_def using same by simp
  have heap: "?h - stored_at ks d = h - stored_at (k # ks) d"
  proof (cases "d ! k")
    case None
    then show ?thesis unfolding stored_at_def by auto
  next
    case (Some a)
    then show ?thesis unfolding stored_at_def by auto
  qed
  have r: "release_all (k # ks) (h, d) = Inr (h - stored_at (k # ks) d, d')"
    using del d1 st heap by simp
  have l: "length d' = length d" using d2 by simp
  have n: "d' ! k' = (if k' \<in> set (k # ks) then None else d ! k')" if "k' < length d" for k'
  proof (cases "k' = k")
    case True
    then show ?thesis using d3 [of k'] that k(1) by simp
  next
    case False
    then show ?thesis using d3 [of k'] that by simp
  qed
  show ?case using r l n by blast
qed

lemma release_all_null:
  "\<forall>k \<in> set ks. k < length d \<and> d ! k = None \<Longrightarrow> release_all ks (h, d) = Inr (h, d)"
proof (induction ks)
  case Nil
  show ?case by simp
next
  case (Cons k ks)
  then have "d ! k = None" "k < length d" by simp_all
  then have "d[k := None] = d" by (metis list_update_id)
  then show ?case using Cons by (simp add: delete_ptr_def)
qed

lemma stored_at_all: "stored_at [0..<length d] d = {a. Some a \<in> set d}"
  by (auto simp: stored_at_def in_set_conv_nth)

lemma exclusively_owned_owned:
  assumes "exclusively_owned h m"
  shows "owned [0..<length (Matrixdata m)] h (Matrixdata m)"
proof -
  let ?d = "Matrixdata m"
  have sub: "\<And>a. Some a \<in> set ?d \<Longrightarrow> a \<in> h"
    and inj: "\<And>k k' a. k < length ?d \<Longrightarrow> k' < length ?d \<Longrightarrow>
               ?d ! k = Some a \<Longrightarrow> ?d ! k' = Some a \<Longrightarrow> k = k'"
    using assms unfolding exclusively_owned_def stored_def by blast+
  have live: "a \<in> h" if "k < length ?d" "?d ! k = Some a" for k a
    using sub [of a] nth_mem [OF that(1)] that(2) by simp
  show ?thesis
    unfolding owned_def using live inj by auto
qed

lemma position_in_range: "i < nr \<Longrightarrow> j < nc \<Longrightarrow> nc * i + j < nr * (nc::nat)"
proof -
  assume a: "i < nr" "j < nc"
  then have "nc * i + j < nc * i + nc" by simp
  also have "\<dots> = nc * Suc i" by simp
  also have "\<dots> \<le> nc * nr" using a(1) by (intro mult_le_mono2) simp
  finally show ?thesis by (simp add: mult.commute)
qed

lemma clean_up_rows_all:
  assumes "exclusively_owned h m"
  shows "\<exists>d'. clean_up_rows [0..<dm_nrow m] (dm_ncol m) (h, m) =
                 Inr (h - stored m, m\<lparr>Matrixdata := d'\<rparr>) \<and>
              length d' = dm_nrow m * dm_ncol m \<and> (\<forall>k < length d'. d' ! k = None)"
proof -
  let ?d = "Matrixdata m"
  have len: "length ?d = dm_nrow m * dm_ncol m"
    using assms by (simp add: exclusively_owned_def)
  have flat: "clean_up_rows [0..<dm_nrow m] (dm_ncol m) (h, m) =
      with_data m (release_all [0..<length ?d] (h, ?d))"
    using clean_up_rows_flat [of m "dm_ncol m" "[0..<dm_nrow m]" h]
    by (simp add: row_major_positions len)
  obtain d' where d':
    "release_all [0..<length ?d] (h, ?d) = Inr (h - stored_at [0..<length ?d] ?d, d')"
    "length d' = length ?d"
    "\<forall>k < length ?d. d' ! k = (if k \<in> set [0..<length ?d] then None else ?d ! k)"
    using release_all_owned [OF distinct_upt exclusively_owned_owned [OF assms]] by blast
  have "clean_up_rows [0..<dm_nrow m] (dm_ncol m) (h, m) = Inr (h - stored m, m\<lparr>Matrixdata := d'\<rparr>)"
    using flat d'(1) by (simp add: with_data_def stored_at_all stored_def)
  moreover have "length d' = dm_nrow m * dm_ncol m" using d'(2) len by simp
  moreover have "\<forall>k < length d'. d' ! k = None" using d'(2,3) by simp
  ultimately show ?thesis by blast
qed

lemma clean_up_rows_null:
  assumes "length (Matrixdata m) = dm_nrow m * dm_ncol m" "\<forall>k < length (Matrixdata m). Matrixdata m ! k = None"
  shows "clean_up_rows [0..<dm_nrow m] (dm_ncol m) (h, m) = Inr (h, m)"
proof -
  let ?d = "Matrixdata m"
  have flat: "clean_up_rows [0..<dm_nrow m] (dm_ncol m) (h, m) =
      with_data m (release_all [0..<length ?d] (h, ?d))"
    using clean_up_rows_flat [of m "dm_ncol m" "[0..<dm_nrow m]" h]
    by (simp add: row_major_positions assms(1))
  have "release_all [0..<length ?d] (h, ?d) = Inr (h, ?d)"
    by (rule release_all_null) (use assms(2) in simp)
  then show ?thesis using flat by (simp add: with_data_def)
qed

text \<open>
  C5. When the table of off-diagonal operators exclusively owns the objects it points
  to, \<open>clean_up_memory\<close> frees every stored operator, leaves a null pointer in every
  slot, and then runs the base-class cleanup; calling it a second time changes nothing
  and frees nothing twice (given that the base-class cleanup, which is not among the
  sources, is itself idempotent on the base state), and the destructor performs exactly
  this cleanup.
\<close>

theorem clean_up_memory_releases_all:
  assumes "exclusively_owned h (Off_diagonal_matrix_vector_products p)"
    and "bc (bc (Base p)) = bc (Base p)"
  shows "\<exists>p'. clean_up_memory bc (h, p) = Inr (h - stored (Off_diagonal_matrix_vector_products p), p') \<and>
     (\<forall>i < dm_nrow (Off_diagonal_matrix_vector_products p).
        \<forall>j < dm_ncol (Off_diagonal_matrix_vector_products p).
          entry (Off_diagonal_matrix_vector_products p') i j = None) \<and>
     dm_nrow (Off_diagonal_matrix_vector_products p') = dm_nrow (Off_diagonal_matrix_vector_products p) \<and>
     dm_ncol (Off_diagonal_matrix_vector_products p') = dm_ncol (Off_diagonal_matrix_vector_products p) \<and>
     Base p' = bc (Base p) \<and>
     clean_up_memory bc (h - stored (Off_diagonal_matrix_vector_products p), p') =
       Inr (h - stored (Off_diagonal_matrix_vector_products p), p') \<and>
     BandedBlockTriangularPreconditioner_dtor bc (h, p) =
       Inr (h - stored (Off_diagonal_matrix_vector_products p))"
proof -
  let ?m = "Off_diagonal_matrix_vector_products p"
  obtain d' where d':
    "clean_up_rows [0..<dm_nrow ?m] (dm_ncol ?m) (h, ?m) = Inr (h - stored ?m, ?m\<lparr>Matrixdata := d'\<rparr>)"
    "length d' = dm_nrow ?m * dm_ncol ?m" "\<forall>k < length d'. d' ! k = None"
    using clean_up_rows_all [OF assms(1)] by blast
  let ?m' = "?m\<lparr>Matrixdata := d'\<rparr>"
  let ?p' = "p\<lparr>Off_diagonal_matrix_vector_products := ?m', Base := bc (Base p)\<rparr>"
  have first: "clean_up_memory bc (h, p) = Inr (h - stored ?m, ?p')"
    using d'(1) by (simp add: clean_up_memory_def Let_def)
  have null: "entry ?m' i j = None" if "i < dm_nrow ?m" "j < dm_ncol ?m" for i j
    using position_in_range [OF that] d'(2,3) by (simp add: entry_def)
  have again: "clean_up_rows [0..<dm_nrow ?m'] (dm_ncol ?m') (h - stored ?m, ?m') = Inr (h - stored ?m, ?m')"
    by (rule clean_up_rows_null) (use d'(2,3) in simp_all)
  have second: "clean_up_memory bc (h - stored ?m, ?p') = Inr (h - stored ?m, ?p')"
    using again assms(2) by (simp add: clean_up_memory_def Let_def)
  have dtor: "BandedBlockTriangularPreconditioner_dtor bc (h, p) = Inr (h - stored ?m)"
    using first by (simp add: BandedBlockTriangularPreconditioner_dtor_def)
  show ?thesis
    using first null second dtor by (intro exI [of _ ?p']) simp
qed


theorem clean_up_memory_releases_all_witness:
  "exclusively_owned {10, 20, 30} \<lparr>dm_nrow = 1, dm_ncol = 2, Matrixdata = [None, Some 10]\<rparr> \<and>
   clean_up_memory id ({10, 20, 30},
       (BandedBlockTriangularPreconditioner_ctor (0::nat))
         \<lparr>Off_diagonal_matrix_vector_products :=
            \<lparr>dm_nrow = 1, dm_ncol = 2, Matrixdata = [None, Some 10]\<rparr>\<rparr>) =
     Inr ({20, 30},
       (BandedBlockTriangularPreconditioner_ctor (0::nat))
         \<lparr>Off_diagonal_matrix_vector_products :=
            \<lparr>dm_nrow = 1, dm_ncol = 2, Matrixdata = [None, None]\<rparr>\<rparr>) \<and>
   BandedBlockTriangularPreconditioner_dtor id ({10, 20, 30},
       (BandedBlockTriangularPreconditioner_ctor (0::nat))
         \<lparr>Off_diagonal_matrix_vector_products :=
            \<lparr>dm_nrow = 1, dm_ncol = 2, Matrixdata = [None, Some 10]\<rparr>\<rparr>) = Inr {20, 30}"
proof -
  let ?m = "\<lparr>dm_nrow = 1, dm_ncol = 2, Matrixdata = [None, Some (10::nat)]\<rparr>"
  let ?p = "(BandedBlockTriangularPreconditioner_ctor (0::nat))
              \<lparr>Off_diagonal_matrix_vector_products := ?m\<rparr>"
  have own: "exclusively_owned {10, 20, 30} ?m"
    by (auto simp: exclusively_owned_def stored_def less_Suc_eq nth_Cons')
  have own': "exclusively_owned {10, 20, 30} (Off_diagonal_matrix_vector_products ?p)"
    using own by simp
  have idem: "id (id (Base ?p)) = id (Base ?p)" by simp
  have st: "stored ?m = {10}" by (auto simp: stored_def)
  have run: "clean_up_memory id ({10, 20, 30}, ?p) =
      Inr ({20, 30}, ?p\<lparr>Off_diagonal_matrix_vector_products :=
            \<lparr>dm_nrow = 1, dm_ncol = 2, Matrixdata = [None, None]\<rparr>\<rparr>)"
    by (simp add: clean_up_memory_def entry_def set_entry_def delete_ptr_def
        BandedBlockTriangularPreconditioner_ctor_def upt_rec insert_Diff_if)
  from clean_up_memory_releases_all [where bc = id, OF own' idem]
  have "BandedBlockTriangularPreconditioner_dtor id ({10, 20, 30}, ?p) =
      Inr ({10, 20, 30} - stored ?m)"
    by auto
  then have "BandedBlockTriangularPreconditioner_dtor id ({10, 20, 30}, ?p) = Inr {20, 30}"
    using st by (simp add: insert_Diff_if)
  then show ?thesis using own run by simp
qed

subsection \<open>MUMPS solver\<close>

text \<open>
  C8. \<open>MumpsSolver::disable_resolve\<close> is the base-class disable followed by
  \<open>clean_up_memory\<close>: afterwards resolves are disabled, the solver holds no
  factorisation, is no longer initialised and its three triplet arrays are empty; the
  destructor performs the same cleanup; and a resolve after \<open>disable_resolve\<close> finds
  no factorisation to reuse and fails.
\<close>

theorem disable_resolve_cleans_up:
  "disable_resolve s = Mumps_clean_up_memory (LinearSolver_disable_resolve s) \<and>
   \<not> Enable_resolve (disable_resolve s) \<and>
   \<not> Mumps_is_initialised (disable_resolve s) \<and>
   Mumps_struc_pt (disable_resolve s) = None \<and>
   Irn_loc (disable_resolve s) = [] \<and>
   Jcn_loc (disable_resolve s) = [] \<and>
   A_loc (disable_resolve s) = [] \<and>
   MumpsSolver_dtor s = Mumps_clean_up_memory s \<and>
   Mumps_struc_pt (MumpsSolver_dtor s) = None \<and>
   resolve backsub (disable_resolve s) rhs = Inl no_factorisation"
  by (simp add: disable_resolve_def Mumps_clean_up_memory_def LinearSolver_disable_resolve_def
      MumpsSolver_dtor_def resolve_def)





subsection \<open>DoubleMultiVector: access to a built multi-vector\<close>

lemma nat_sint_unat: "0 \<le> sint (w :: 'a::len word) \<Longrightarrow> nat (sint w) = unat w"
proof -
  assume a: "0 \<le> sint w"
  let ?n = "LENGTH('a) - Suc 0"
  have s: "sint w = signed_take_bit ?n (uint w)" by (rule sint_uint)
  have nb: "\<not> bit (uint w) ?n"
    using a s by (metis not_le signed_take_bit_negative_iff)
  have "signed_take_bit ?n (uint w) = take_bit ?n (uint w)"
    using nb by (rule signed_take_bit_eq_if_positive)
  moreover have "take_bit (Suc ?n) (uint w) = uint w"
    by (simp add: take_bit_int_eq_self_iff uint_lt2p)
  moreover have "take_bit (Suc ?n) (uint w) = take_bit ?n (uint w)"
    using nb take_bit_Suc_from_most [of ?n "uint w"] by simp
  ultimately have "sint w = uint w" using s by simp
  then show ?thesis by simp
qed

lemma built_ok_Values:
  assumes "built_ok mv"
  shows "\<exists>vs. Values mv = Some vs \<and> length vs = unat (Nvector mv) \<and>
           (\<forall>v < length vs. length (vs ! v) = unat (nrow_local mv))"
  using assms by (auto simp: built_ok_def list_all_length nrow_local_def split: option.splits)

lemma values_at_ok:
  "Values mv = Some vs \<Longrightarrow> v < length vs \<Longrightarrow> values_at mv (int v) = Inr (vs ! v)"
  by (simp add: values_at_def)

lemma entry_at_ok:
  "Values mv = Some vs \<Longrightarrow> v < length vs \<Longrightarrow> i < length (vs ! v) \<Longrightarrow>
   entry_at mv (int v) (int i) = Inr (vs ! v ! i)"
  by (simp add: entry_at_def values_at_def element_at_def)

text \<open>
  What \<open>operator()\<close> does: it throws exactly when range checking is compiled in and
  \<open>v > int(Nvector)\<close> or \<open>i >= int(nrow_local())\<close>, and on a built multi-vector it
  returns the addressed entry for indices within both ranges.
\<close>

lemma operator_call_range_error_iff:
  "(\<exists>msg. operator_call fl mv v i = Inl (OomphLibError msg)) \<longleftrightarrow>
     RANGE_CHECKING fl \<and> (sint (Nvector mv) < sint v \<or> sint (nrow_local mv) \<le> sint i)"
  by (auto simp: operator_call_def Let_def entry_at_def values_at_def element_at_def
      split: option.splits sum.splits if_splits)

lemma operator_call_in_range:
  assumes "built_ok mv" "0 \<le> sint v" "sint v < sint (Nvector mv)"
    and "0 \<le> sint i" "sint i < sint (nrow_local mv)"
  shows "operator_call fl mv v i = Inr (local_values mv ! nat (sint v) ! nat (sint i))"
proof -
  obtain vs where vs: "Values mv = Some vs" "length vs = unat (Nvector mv)"
    "\<forall>w < length vs. length (vs ! w) = unat (nrow_local mv)"
    using built_ok_Values [OF assms(1)] by blast
  have nv: "nat (sint (Nvector mv)) = unat (Nvector mv)"
    by (rule nat_sint_unat) (use assms(2,3) in simp)
  have nr: "nat (sint (nrow_local mv)) = unat (nrow_local mv)"
    by (rule nat_sint_unat) (use assms(4,5) in simp)
  have v: "nat (sint v) < length vs" using assms(2,3) nv vs(2) by linarith
  then have i: "nat (sint i) < length (vs ! nat (sint v))" using assms(4,5) nr vs(3) by auto
  have "entry_at mv (int (nat (sint v))) (int (nat (sint i))) = Inr (vs ! nat (sint v) ! nat (sint i))"
    by (rule entry_at_ok [OF vs(1) v i])
  then show ?thesis
    using assms(2-5) vs(1) by (simp add: operator_call_def Let_def local_values_def)
qed

text \<open>
  C3, evaluated on the code. The claim is that, with range checking, every access whose
  vector index is outside \<open>0..Nvector-1\<close> or whose row index is outside
  \<open>0..nrow_local-1\<close> throws a range error. For a built multi-vector of 2 vectors with
  3 local rows the access \<open>(2, 0)\<close> passes the test \<open>v > int(Nvector)\<close> and reads
  \<open>Values[2]\<close> beyond the pointer array; the accesses \<open>(-1, 0)\<close> and \<open>(0, -1)\<close>
  pass both tests as well, since neither test has a lower bound. The in-range access
  \<open>(1, 2)\<close> returns the entry and \<open>(3, 0)\<close> and \<open>(0, 3)\<close> throw.
\<close>

theorem operator_call_misses_v_equal_Nvector:
  "built_ok two_by_three \<and> nvector two_by_three = 2 \<and> nrow_local two_by_three = 3 \<and>
   operator_call checked_build two_by_three 2 0 = Inl Undefined_behaviour \<and>
   operator_call checked_build two_by_three (- 1) 0 = Inl Undefined_behaviour \<and>
   operator_call checked_build two_by_three 0 (- 1) = Inl Undefined_behaviour \<and>
   operator_call checked_build two_by_three 1 2 = Inr 6 \<and>
   operator_call checked_build two_by_three 3 0 =
     Inl (OomphLibError [Txt ''Range Error: Vector '', Signed 3,
                         Txt ''is not in the range (0,'', Unsigned 1, Txt '')'']) \<and>
   operator_call checked_build two_by_three 0 3 =
     Inl (OomphLibError [Txt ''Range Error: '', Signed 3,
                         Txt '' is not in the range (0,'', Unsigned 2, Txt '')''])"
  by (simp add: operator_call_def checked_build_def two_by_three_def nrow_local_def
      nvector_def built_ok_def entry_at_def values_at_def element_at_def)

subsection \<open>DoubleMultiVector: dot and norm\<close>

lemma sum_products_ok:
  assumes "Values this = Some xs" "v < length xs"
    and "\<forall>i \<in> set is. i < length (xs ! v) \<and> i < length ys"
  shows "sum_products this v ys is acc = Inr (foldl (\<lambda>a i. a + xs ! v ! i * ys ! i) acc is)"
  using assms(3)
proof (induction "is" arbitrary: acc)
  case Nil
  show ?case by simp
next
  case (Cons i "is")
  then have i: "i < length (xs ! v)" "i < length ys" by simp_all
  show ?case
    using Cons i by (simp add: entry_at_ok [OF assms(1,2)] element_at_def)
qed

lemma sum_squares_ok:
  assumes "Values this = Some xs" "v < length xs"
    and "\<forall>i \<in> set is. i < length (xs ! v)"
  shows "sum_squares this v is acc = Inr (foldl (\<lambda>a i. a + xs ! v ! i * xs ! v ! i) acc is)"
  using assms(3)
proof (induction "is" arbitrary: acc)
  case Nil
  show ?case by simp
next
  case (Cons i "is")
  then have i: "i < length (xs ! v)" by simp
  show ?case
    using Cons i by (simp add: entry_at_ok [OF assms(1,2)])
qed

lemma foldl_add_upt:
  "foldl (\<lambda>a i. a + f i) (acc :: 'a::comm_monoid_add) [0..<n] = acc + (\<Sum>i<n. f i)"
  by (induction n) (simp_all add: add.assoc)

lemma local_dot_products:
  assumes "Values this = Some xs" "Values vec = Some ys"
    and "\<forall>v \<in> set vs. v < length xs \<and> v < length ys \<and> length (xs ! v) = n \<and> length (ys ! v) = n"
  shows "local_dot this vec n vs = Inr (map (\<lambda>v. accumulate_products (xs ! v) (ys ! v)) vs)"
  using assms(3)
proof (induction vs)
  case Nil
  show ?case by simp
next
  case (Cons v vs)
  then have v: "v < length xs" "v < length ys" "length (xs ! v) = n" "length (ys ! v) = n"
    by simp_all
  have "sum_products this v (ys ! v) [0..<n] 0 =
      Inr (foldl (\<lambda>a i. a + xs ! v ! i * (ys ! v) ! i) 0 [0..<n])"
    by (rule sum_products_ok [OF assms(1) v(1)]) (simp add: v)
  then have "sum_products this v (ys ! v) [0..<n] 0 = Inr (accumulate_products (xs ! v) (ys ! v))"
    by (simp add: accumulate_products_def v)
  then show ?case
    using Cons v by (simp add: values_at_ok [OF assms(2)])
qed

lemma accumulate_products_sum:
  fixes xs :: "'a::comm_semiring_0 list"
  shows "accumulate_products xs ys = inner_product xs ys"
  by (simp add: accumulate_products_def inner_product_def foldl_add_upt)

lemma sum_squares_eq_sum_products:
  assumes "Values this = Some xs" "v < length xs"
    and "\<forall>i \<in> set is. i < length (xs ! v)"
  shows "sum_squares this v is acc = sum_products this v (xs ! v) is acc"
  using sum_squares_ok [OF assms] sum_products_ok [OF assms(1,2), of "is" "xs ! v" acc] assms(3)
  by simp

lemma local_norm_eq_local_dot:
  assumes "Values this = Some xs"
    and "\<forall>v \<in> set vs. v < length xs \<and> length (xs ! v) = n"
  shows "local_norm this n vs = local_dot this this n vs"
  using assms(2)
proof (induction vs)
  case Nil
  show ?case by simp
next
  case (Cons v vs)
  then have v: "v < length xs" "length (xs ! v) = n" by simp_all
  have "sum_squares this v [0..<n] 0 = sum_products this v (xs ! v) [0..<n] 0"
    by (rule sum_squares_eq_sum_products [OF assms(1) v(1)]) (simp add: v)
  then show ?case
    using Cons v by (simp add: values_at_ok [OF assms(1)] split: sum.splits)
qed

lemma norm_multi_eq_dot:
  assumes "built_ok this"
  shows "norm_multi sqrt_fn fl this peers =
     (case dot fl this this peers of Inl e \<Rightarrow> Inl e | Inr r \<Rightarrow> Inr (map sqrt_fn (fst r), snd r))"
proof -
  obtain xs where xs: "Values this = Some xs" "length xs = unat (Nvector this)"
    "\<And>v. v < length xs \<Longrightarrow> length (xs ! v) = unat (nrow_local this)"
    using built_ok_Values [OF assms] by blast
  have b: "Built this" "0 \<le> sint (Nvector this)"
    using assms by (simp_all add: built_ok_def)
  have n: "nat (sint (Nvector this)) = unat (Nvector this)"
    using b(2) by (rule nat_sint_unat)
  have "local_norm this (unat (nrow_local this)) [0..<unat (Nvector this)] =
      local_dot this this (unat (nrow_local this)) [0..<unat (Nvector this)]"
    by (rule local_norm_eq_local_dot [OF xs(1)]) (simp add: xs(2,3))
  then show ?thesis
    using b n by (simp add: norm_multi_def dot_def built_def nvector_def split: sum.splits)
qed


lemma MPI_Allreduce_sum_length:
  "\<forall>p \<in> set peers. length p = length n \<Longrightarrow> length (MPI_Allreduce_sum n peers) = length n"
  unfolding MPI_Allreduce_sum_def
  by (induction peers arbitrary: n) simp_all

lemma MPI_Allreduce_sum_nth:
  fixes n :: "'a::comm_monoid_add list"
  shows "\<forall>p \<in> set peers. length p = length n \<Longrightarrow> v < length n \<Longrightarrow>
    MPI_Allreduce_sum n peers ! v = n ! v + (\<Sum>p\<leftarrow>peers. p ! v)"
  unfolding MPI_Allreduce_sum_def
proof (induction peers arbitrary: n)
  case Nil
  show ?case by simp
next
  case (Cons p peers)
  have l: "length (map2 (+) n p) = length n" using Cons.prems by simp
  have "foldl (\<lambda>acc p. map2 (+) acc p) (map2 (+) n p) peers ! v =
      map2 (+) n p ! v + (\<Sum>q\<leftarrow>peers. q ! v)"
    by (rule Cons.IH) (use Cons.prems l in simp_all)
  then show ?case using Cons.prems by (simp add: add.assoc)
qed

lemma MPI_Allreduce_sum_map:
  fixes f :: "nat \<Rightarrow> 'a::comm_monoid_add"
  assumes "\<forall>p \<in> set peers. length p = k"
  shows "MPI_Allreduce_sum (map f [0..<k]) peers = map (\<lambda>v. f v + (\<Sum>p\<leftarrow>peers. p ! v)) [0..<k]"
proof (rule nth_equalityI)
  have p: "\<forall>p \<in> set peers. length p = length (map f [0..<k])" using assms by simp
  show "length (MPI_Allreduce_sum (map f [0..<k]) peers) =
      length (map (\<lambda>v. f v + (\<Sum>p\<leftarrow>peers. p ! v)) [0..<k])"
    using MPI_Allreduce_sum_length [OF p] by simp
  fix v assume "v < length (MPI_Allreduce_sum (map f [0..<k]) peers)"
  then have v: "v < k" using MPI_Allreduce_sum_length [OF p] by simp
  then have "v < length (map f [0..<k])" by simp
  from MPI_Allreduce_sum_nth [OF p this] v
  show "MPI_Allreduce_sum (map f [0..<k]) peers ! v =
      map (\<lambda>v. f v + (\<Sum>p\<leftarrow>peers. p ! v)) [0..<k] ! v"
    by simp
qed

lemma MPI_Allreduce_sum_sums:
  fixes n :: "'a::comm_monoid_add list"
  assumes "\<forall>p \<in> set ps. length p = length n"
  shows "MPI_Allreduce_sum n ps = map (\<lambda>v. n ! v + (\<Sum>p\<leftarrow>ps. p ! v)) [0..<length n]"
proof -
  have "MPI_Allreduce_sum (map (\<lambda>v. n ! v) [0..<length n]) ps =
      map (\<lambda>v. n ! v + (\<Sum>p\<leftarrow>ps. p ! v)) [0..<length n]"
    by (rule MPI_Allreduce_sum_map) (use assms in simp)
  then show ?thesis by (simp add: map_nth)
qed

lemma dot_gathers:
  assumes "built_ok this" "built_ok vec" "Distribution_pt this = Distribution_pt vec"
    and "unat (Nvector this) \<le> unat (Nvector vec)"
  shows "dot fl this vec peers =
      Inr (if communicates fl this then MPI_Allreduce_sum (local_products this vec) peers
           else local_products this vec,
           if communicates fl this then [MPI_Allreduce_SUM (unat (Nvector this))] else [])"
proof -
  obtain xs where xs: "Values this = Some xs" "length xs = unat (Nvector this)"
    "\<And>v. v < length xs \<Longrightarrow> length (xs ! v) = unat (nrow_local this)"
    using built_ok_Values [OF assms(1)] by blast
  obtain ys where ys: "Values vec = Some ys" "length ys = unat (Nvector vec)"
    "\<And>v. v < length ys \<Longrightarrow> length (ys ! v) = unat (nrow_local vec)"
    using built_ok_Values [OF assms(2)] by blast
  have b: "Built this" "Built vec" "0 \<le> sint (Nvector this)"
    using assms(1,2) by (simp_all add: built_ok_def)
  have n: "nat (sint (Nvector this)) = unat (Nvector this)"
    using b(3) by (rule nat_sint_unat)
  have r: "nrow_local vec = nrow_local this"
    using assms(3) by (simp add: nrow_local_def)
  have "local_dot this vec (unat (nrow_local this)) [0..<unat (Nvector this)] =
      Inr (map (\<lambda>v. accumulate_products (xs ! v) (ys ! v)) [0..<unat (Nvector this)])"
    by (rule local_dot_products [OF xs(1) ys(1)]) (use xs(2,3) ys(2,3) assms(4) r in simp)
  then have "dot fl this vec peers = Inr (gather fl this (local_products this vec) peers)"
    using b n assms(3) xs(1) ys(1)
    by (simp add: dot_def built_def nvector_def local_values_def local_products_def)
  then show ?thesis
    by (simp add: gather_def communicates_def distributed_def local_products_def)
qed

lemma norm_gathers:
  assumes "built_ok a"
  shows "norm_multi sqrt_fn fl a peers =
      Inr (map sqrt_fn (if communicates fl a then MPI_Allreduce_sum (local_products a a) peers
                        else local_products a a),
           if communicates fl a then [MPI_Allreduce_SUM (unat (Nvector a))] else [])"
  using norm_multi_eq_dot [OF assms, of sqrt_fn fl peers]
    dot_gathers [OF assms assms refl order_refl, of fl peers]
  by simp

lemma sqrt_tolerance:
  fixes u d n :: real
  assumes "0 \<le> u" "0 \<le> d" "\<bar>n - sqrt d\<bar> \<le> u * sqrt d"
  shows "\<bar>n\<^sup>2 - d\<bar> \<le> (2 * u + u\<^sup>2) * d"
proof -
  let ?s = "sqrt d"
  have s: "0 \<le> ?s" "?s\<^sup>2 = d" using assms(2) by simp_all
  have "\<bar>n + ?s\<bar> \<le> \<bar>n - ?s\<bar> + 2 * ?s" using s(1) by linarith
  then have p: "\<bar>n + ?s\<bar> \<le> (u + 2) * ?s" using assms(3) by (simp add: algebra_simps)
  have "n\<^sup>2 - d = (n - ?s) * (n + ?s)" using s(2) by (simp add: algebra_simps power2_eq_square)
  then have "\<bar>n\<^sup>2 - d\<bar> = \<bar>n - ?s\<bar> * \<bar>n + ?s\<bar>" by (simp add: abs_mult)
  also have "\<dots> \<le> (u * ?s) * ((u + 2) * ?s)"
    by (rule mult_mono [OF assms(3) p]) (use assms(1) s(1) in simp_all)
  also have "\<dots> = (2 * u + u\<^sup>2) * ?s\<^sup>2" by (simp add: algebra_simps power2_eq_square)
  finally show ?thesis using s(2) by simp
qed

lemma dot_paranoid:
  "PARANOID fl \<and> (\<not> built a \<or> \<not> built b \<or> Distribution_pt a \<noteq> Distribution_pt b) \<longrightarrow>
     dot fl a b peers \<in> {Inl this_must_be_setup, Inl input_must_be_setup,
                          Inl (distributions_must_agree (Distribution_pt a) (Distribution_pt b))}"
  by (auto simp: dot_def)

lemma two_by_three_distributed_ok: "built_ok two_by_three_distributed"
  by (simp add: built_ok_def two_by_three_distributed_def)

lemma two_by_three_ok: "built_ok two_by_three"
  by (simp add: built_ok_def two_by_three_def)

text \<open>
  C2, as claimed: for every pair of built multi-vectors with identical distributions,
  \<open>dot\<close> computes the inner product of each vector of \<open>this\<close> with the
  corresponding vector of the other operand. The two operands below are built and have
  the same distribution, but \<open>this\<close> holds two vectors and the other operand one.
  \<open>dot\<close> compares neither number of vectors: for the second vector of \<open>this\<close> it
  reads \<open>vec.values(1)\<close> beyond the pointer array of the other operand, with and
  without \<open>PARANOID\<close>, and there is no inner product to return.
\<close>

theorem dot_reads_past_fewer_vectors:
  "built_ok two_by_three \<and> built_ok one_by_three \<and> built two_by_three \<and> built one_by_three \<and>
   Distribution_pt two_by_three = Distribution_pt one_by_three \<and>
   nvector two_by_three = 2 \<and> nvector one_by_three = 1 \<and>
   dot checked_build two_by_three one_by_three [] = Inl Undefined_behaviour \<and>
   dot unchecked_build two_by_three one_by_three [] = Inl Undefined_behaviour"
  by (simp add: dot_def built_ok_def built_def nvector_def nrow_local_def two_by_three_def
      one_by_three_def checked_build_def unchecked_build_def values_at_def entry_at_def
      element_at_def upt_rec)

text \<open>
  C2, amended: the other operand holds at least as many vectors as \<open>this\<close>. Then,
  for built multi-vectors with identical distributions, \<open>dot\<close> returns for each of
  the \<open>k = Nvector\<close> vectors of \<open>this\<close> the local inner product with the
  corresponding vector of \<open>vec\<close>, accumulated row by row in the arithmetic of the
  entries; when the build has MPI and the distribution is distributed over more than one
  process, it performs exactly one all-reduce, of all \<open>k\<close> partial sums, and returns
  what the all-reduce returns; otherwise it does not communicate. With the arithmetic of
  a commutative semiring the accumulated value is the sum of the products over the rows,
  and the all-reduce adds to each partial sum those of the other processes. In a
  PARANOID build, an unbuilt operand or a distribution mismatch gives one of the three
  precondition errors.
\<close>

theorem dot_all_reduces_local_products:
  fixes this :: "'a::{zero,plus,times} DoubleMultiVector"
    and a :: "'c::{zero,plus,times} DoubleMultiVector"
    and xs :: "'b::comm_semiring_0 list"
    and n :: "'d::comm_monoid_add list"
  assumes "built_ok this" "built_ok vec" "Distribution_pt this = Distribution_pt vec"
    and "unat (Nvector this) \<le> unat (Nvector vec)"
  shows "dot fl this vec peers =
      Inr (if communicates fl this then MPI_Allreduce_sum (local_products this vec) peers
           else local_products this vec,
           if communicates fl this then [MPI_Allreduce_SUM (unat (Nvector this))] else []) \<and>
    local_products this vec =
      map (\<lambda>v. accumulate_products (local_values this ! v) (local_values vec ! v))
        [0..<unat (Nvector this)] \<and>
    accumulate_products xs ys = (\<Sum>i<length xs. xs ! i * ys ! i) \<and>
    ((\<forall>p \<in> set ps. length p = length n) \<longrightarrow>
       MPI_Allreduce_sum n ps = map (\<lambda>v. n ! v + (\<Sum>p\<leftarrow>ps. p ! v)) [0..<length n]) \<and>
    (PARANOID fl' \<and> (\<not> built a \<or> \<not> built b \<or> Distribution_pt a \<noteq> Distribution_pt b) \<longrightarrow>
       dot fl' a b peers' \<in> {Inl this_must_be_setup, Inl input_must_be_setup,
                            Inl (distributions_must_agree (Distribution_pt a) (Distribution_pt b))})"
  using dot_gathers [OF assms, of fl peers] dot_paranoid [of fl' a b peers']
    accumulate_products_sum [of xs ys] MPI_Allreduce_sum_sums [of ps n]
  by (simp add: local_products_def inner_product_def)

theorem dot_all_reduces_local_products_witness:
  "built_ok two_by_three_distributed \<and>
   communicates checked_build two_by_three_distributed \<and>
   dot checked_build two_by_three_distributed two_by_three_distributed [[1, 2]] =
     Inr ([15, 79], [MPI_Allreduce_SUM 2]) \<and>
   \<not> communicates checked_build two_by_three \<and>
   dot checked_build two_by_three two_by_three [[1, 2]] = Inr ([14, 77], []) \<and>
   PARANOID checked_build \<and> \<not> built (DoubleMultiVector_ctor :: real DoubleMultiVector) \<and>
   dot checked_build DoubleMultiVector_ctor two_by_three [[1, 2]] = Inl this_must_be_setup"
proof -
  let ?c = "DoubleMultiVector_ctor :: real DoubleMultiVector"
  have c: "communicates checked_build two_by_three_distributed"
    by (simp add: communicates_def checked_build_def two_by_three_distributed_def)
  have c': "\<not> communicates checked_build two_by_three"
    by (simp add: communicates_def two_by_three_def)
  have u: "[0..<unat (Nvector two_by_three_distributed)] = [0, 1]"
    "[0..<unat (Nvector two_by_three)] = [0, 1]"
    by (simp_all add: two_by_three_distributed_def two_by_three_def upt_rec)
  have l: "local_values two_by_three_distributed = [[1, 2, 3], [4, 5, 6]]"
    "local_values two_by_three = [[1, 2, 3], [4, 5, 6]]"
    by (simp_all add: local_values_def two_by_three_distributed_def two_by_three_def)
  have a: "accumulate_products [1, 2, 3] [1, 2, 3 :: real] = 14"
    "accumulate_products [4, 5, 6] [4, 5, 6 :: real] = 77"
    by (simp_all add: accumulate_products_def upt_rec)
  have r: "MPI_Allreduce_sum [14, 77] [[1, 2 :: real]] = [15, 79]"
    by (simp add: MPI_Allreduce_sum_def)
  have e: "PARANOID checked_build \<and> \<not> built ?c"
    by (simp add: checked_build_def built_def DoubleMultiVector_ctor_def)
  have e': "dot checked_build ?c two_by_three [[1, 2]] = Inl this_must_be_setup"
    using e by (simp add: dot_def)
  from dot_all_reduces_local_products
      [OF two_by_three_distributed_ok two_by_three_distributed_ok refl order_refl,
       of checked_build "[[1, 2]]" "[] :: real list" "[]" "[] :: real list list" "[] :: real list"
          checked_build ?c two_by_three "[[1, 2]]"]
  have d: "dot checked_build two_by_three_distributed two_by_three_distributed [[1, 2]] =
      Inr ([15, 79], [MPI_Allreduce_SUM 2])"
    using c u l a r by (simp add: two_by_three_distributed_def)
  from dot_all_reduces_local_products
      [OF two_by_three_ok two_by_three_ok refl order_refl,
       of checked_build "[[1, 2]]" "[] :: real list" "[]" "[] :: real list list" "[] :: real list"
          checked_build ?c two_by_three "[[1, 2]]"]
  have d': "dot checked_build two_by_three two_by_three [[1, 2]] = Inr ([14, 77], [])"
    using c' u l a by simp
  show ?thesis using c c' d d' e e' two_by_three_distributed_ok by simp
qed

text \<open>
  C7. For a built multi-vector \<open>a\<close>, \<open>norm\<close> accumulates for each vector the local
  sum of the squares of its entries, performs exactly one all-reduce of all
  \<open>k = Nvector\<close> partial sums when the build has MPI and the distribution is
  distributed over more than one process (and does not communicate otherwise), and
  returns the square root of each gathered sum; \<open>dot(a, a)\<close> returns the gathered sums
  themselves, with the same communication. This holds whatever the arithmetic of the
  entries and the square-root function \<open>sqrt_fn\<close> are. The tolerance: \<open>val\<close> gives
  the real number an entry stands for; if the square-root function returns the square
  root up to a relative error \<open>u\<close> (for the correctly rounded square root of IEEE
  binary64, \<open>u = 2\<^sup>-\<^sup>5\<^sup>3\<close>), then the square of each norm differs from the
  corresponding self-dot \<open>d\<close> by at most \<open>(2u + u\<^sup>2) d\<close>, wherever the self-dot is
  a non-negative number.
\<close>

theorem norm_all_reduces_then_takes_roots:
  fixes a :: "'a::{zero,plus,times} DoubleMultiVector" and val :: "'a \<Rightarrow> real"
  assumes "built_ok a"
  shows "norm_multi sqrt_fn fl a peers =
      Inr (map sqrt_fn (if communicates fl a then MPI_Allreduce_sum (local_products a a) peers
                        else local_products a a),
           if communicates fl a then [MPI_Allreduce_SUM (unat (Nvector a))] else []) \<and>
    dot fl a a peers =
      Inr (if communicates fl a then MPI_Allreduce_sum (local_products a a) peers
           else local_products a a,
           if communicates fl a then [MPI_Allreduce_SUM (unat (Nvector a))] else []) \<and>
    local_products a a =
      map (\<lambda>v. accumulate_products (local_values a ! v) (local_values a ! v))
        [0..<unat (Nvector a)] \<and>
    (0 \<le> u \<and> (\<forall>x. 0 \<le> val x \<longrightarrow> \<bar>val (sqrt_fn x) - sqrt (val x)\<bar> \<le> u * sqrt (val x)) \<longrightarrow>
       (\<forall>d. d \<in> set (if communicates fl a then MPI_Allreduce_sum (local_products a a) peers
                      else local_products a a) \<and> 0 \<le> val d \<longrightarrow>
          \<bar>(val (sqrt_fn d))\<^sup>2 - val d\<bar> \<le> (2 * u + u\<^sup>2) * val d))"
proof -
  have n: "norm_multi sqrt_fn fl a peers =
      Inr (map sqrt_fn (if communicates fl a then MPI_Allreduce_sum (local_products a a) peers
                        else local_products a a),
           if communicates fl a then [MPI_Allreduce_SUM (unat (Nvector a))] else [])"
    by (rule norm_gathers [OF assms])
  have d: "dot fl a a peers =
      Inr (if communicates fl a then MPI_Allreduce_sum (local_products a a) peers
           else local_products a a,
           if communicates fl a then [MPI_Allreduce_SUM (unat (Nvector a))] else [])"
    by (rule dot_gathers [OF assms assms refl order_refl])
  have t: "\<bar>(val (sqrt_fn d))\<^sup>2 - val d\<bar> \<le> (2 * u + u\<^sup>2) * val d"
    if "0 \<le> u" "\<forall>x. 0 \<le> val x \<longrightarrow> \<bar>val (sqrt_fn x) - sqrt (val x)\<bar> \<le> u * sqrt (val x)"
      "0 \<le> val d" for d
  proof -
    have "\<bar>val (sqrt_fn d) - sqrt (val d)\<bar> \<le> u * sqrt (val d)"
      using that(2,3) by blast
    from sqrt_tolerance [OF that(1,3) this] show ?thesis .
  qed
  have l: "local_products a a =
      map (\<lambda>v. accumulate_products (local_values a ! v) (local_values a ! v))
        [0..<unat (Nvector a)]"
    by (simp add: local_products_def)
  show ?thesis
    using n d l t by blast
qed


theorem norm_all_reduces_then_takes_roots_witness:
  "built_ok two_by_three_distributed \<and>
   communicates checked_build two_by_three_distributed \<and>
   norm_multi (\<lambda>x. sqrt x * (1 + 1 / 1000)) checked_build two_by_three_distributed [[1, 2]] =
     Inr ([sqrt 15 * (1 + 1 / 1000), sqrt 79 * (1 + 1 / 1000)], [MPI_Allreduce_SUM 2]) \<and>
   dot checked_build two_by_three_distributed two_by_three_distributed [[1, 2]] =
     Inr ([15, 79], [MPI_Allreduce_SUM 2]) \<and>
   (0 :: real) \<le> 1 / 1000 \<and>
   \<bar>(sqrt 15 * (1 + 1 / 1000))\<^sup>2 - 15\<bar> \<le> (2 * (1 / 1000) + (1 / 1000)\<^sup>2) * 15 \<and>
   \<bar>(sqrt 79 * (1 + 1 / 1000))\<^sup>2 - 79\<bar> \<le> (2 * (1 / 1000) + (1 / 1000)\<^sup>2) * 79"
proof -
  let ?f = "\<lambda>x :: real. sqrt x * (1 + 1 / 1000)"
  let ?a = two_by_three_distributed
  have c: "communicates checked_build ?a"
    by (simp add: communicates_def checked_build_def two_by_three_distributed_def)
  have u: "[0..<unat (Nvector ?a)] = [0, 1]"
    by (simp add: two_by_three_distributed_def upt_rec)
  have k: "unat (Nvector ?a) = 2"
    by (simp add: two_by_three_distributed_def)
  have l: "local_values ?a = [[1, 2, 3], [4, 5, 6]]"
    by (simp add: local_values_def two_by_three_distributed_def)
  have a: "accumulate_products [1, 2, 3] [1, 2, 3 :: real] = 14"
    "accumulate_products [4, 5, 6] [4, 5, 6 :: real] = 77"
    by (simp_all add: accumulate_products_def upt_rec)
  have r: "MPI_Allreduce_sum [14, 77] [[1, 2 :: real]] = [15, 79]"
    by (simp add: MPI_Allreduce_sum_def)
  have p: "local_products ?a ?a = [14, 77]"
    using u l a by (simp add: local_products_def)
  have g: "(if communicates checked_build ?a then MPI_Allreduce_sum (local_products ?a ?a) [[1, 2]]
            else local_products ?a ?a) = [15, 79]"
    using c p r by simp
  have h: "\<forall>x :: real. 0 \<le> x \<longrightarrow> \<bar>?f x - sqrt x\<bar> \<le> 1 / 1000 * sqrt x"
  proof (intro allI impI)
    fix x :: real assume "0 \<le> x"
    then have "0 \<le> sqrt x" by simp
    moreover have "?f x - sqrt x = sqrt x / 1000" by (simp add: distrib_left)
    ultimately show "\<bar>?f x - sqrt x\<bar> \<le> 1 / 1000 * sqrt x" by simp
  qed
  have z: "(0 :: real) \<le> 1 / 1000" by simp
  note w = norm_all_reduces_then_takes_roots
      [OF two_by_three_distributed_ok, of ?f checked_build "[[1, 2]]" "1 / 1000" "\<lambda>x. x",
       unfolded g]
  note w1 = w [THEN conjunct1]
  note w2 = w [THEN conjunct2, THEN conjunct1]
  note w4 = w [THEN conjunct2, THEN conjunct2, THEN conjunct2]
  have n: "norm_multi ?f checked_build ?a [[1, 2]] = Inr ([?f 15, ?f 79], [MPI_Allreduce_SUM 2])"
    using w1 c k by simp
  have d: "dot checked_build ?a ?a [[1, 2]] = Inr ([15, 79], [MPI_Allreduce_SUM 2])"
    using w2 c k by simp
  have t: "\<forall>d. d \<in> set [15, 79 :: real] \<and> 0 \<le> d \<longrightarrow>
      \<bar>(?f d)\<^sup>2 - d\<bar> \<le> (2 * (1 / 1000) + (1 / 1000)\<^sup>2) * d"
    using w4 z h by blast
  have t0: "\<bar>(?f 15)\<^sup>2 - 15\<bar> \<le> (2 * (1 / 1000) + (1 / 1000)\<^sup>2) * 15"
    by (rule t [rule_format]) simp
  have t1: "\<bar>(?f 79)\<^sup>2 - 79\<bar> \<le> (2 * (1 / 1000) + (1 / 1000)\<^sup>2) * 79"
    by (rule t [rule_format]) simp
  show ?thesis
    by (intro conjI two_by_three_distributed_ok c n d z t0 t1)
qed


subsection \<open>DoubleMultiVector: in-place addition and subtraction\<close>













lemma round_to_double_small: "round_to_double 3 = 3" "round_to_double 1 = 1" "round_to_double 0 = 0"
  by (simp_all add: round_to_double_def)

lemma double_round_trip_exact:
  "\<bar>double_value x\<bar> < 2 ^ 53 \<Longrightarrow> \<bar>double_value x + double_value y\<bar> < 2 ^ 53 \<Longrightarrow>
   (x + y) - y = x"
  by (cases x; cases y) (simp add: plus_double_def minus_double_def round_to_double_def)










end
